theory Spec2Isabelle
  imports Complex_Main
begin

section \<open>Strings\<close>

text \<open>
  JavaScript strings are modelled as \<^typ>\<open>string\<close>. \<open>str_includes\<close> is
  \<^verbatim>\<open>String.prototype.includes\<close>: the argument occurs somewhere as a contiguous,
  case-sensitive run; the empty string occurs in every string.
\<close>

fun str_includes :: "string \<Rightarrow> string \<Rightarrow> bool" where
  "str_includes [] sub = (sub = [])"
| "str_includes (c # cs) sub = (take (length sub) (c # cs) = sub \<or> str_includes cs sub)"

declare str_includes.simps [simp del]

fun join :: "string \<Rightarrow> string list \<Rightarrow> string" where
  "join sep [] = []"
| "join sep [x] = x"
| "join sep (x # y # ys) = x @ sep @ join sep (y # ys)"

definition upper_letters :: string where
  "upper_letters = ''ABCDEFGHIJKLMNOPQRSTUVWXYZ''"

definition lower_letters :: string where
  "lower_letters = ''abcdefghijklmnopqrstuvwxyz''"

definition is_upper :: "char \<Rightarrow> bool" where
  "is_upper c = (c \<in> set upper_letters)"

definition is_lower :: "char \<Rightarrow> bool" where
  "is_lower c = (c \<in> set lower_letters)"

definition is_digit :: "char \<Rightarrow> bool" where
  "is_digit c = (c \<in> set ''0123456789'')"

definition to_lower :: "char \<Rightarrow> char" where
  "to_lower c = (case map_of (zip upper_letters lower_letters) c of Some d \<Rightarrow> d | None \<Rightarrow> c)"

section \<open>Configuration validator (\<^verbatim>\<open>validateSupabaseConfig\<close>)\<close>

record SupabaseConfig =
  url :: string
  anonKey :: string

record ConfigValidationResult =
  isValid :: bool
  errors :: "string list"
  warnings :: "string list"

text \<open>
  The character class \<^verbatim>\<open>[a-z0-9-]\<close> under the flag \<^verbatim>\<open>i\<close>, and the class
  \<^verbatim>\<open>[A-Za-z0-9-_]\<close> of the key pattern.
\<close>

definition subdomain_char :: "char \<Rightarrow> bool" where
  "subdomain_char c = (is_lower c \<or> is_upper c \<or> is_digit c \<or> c = CHR ''-'')"

definition jwt_char :: "char \<Rightarrow> bool" where
  "jwt_char c = (is_upper c \<or> is_lower c \<or> is_digit c \<or> c = CHR ''-'' \<or> c = CHR ''_'')"

text \<open>
  \<^verbatim>\<open>/^https:\/\/[a-z0-9-]+\.supabase\.co$/i\<close>. The dot is outside the class, so the
  run matched by \<^verbatim>\<open>+\<close> is the longest run of class characters after the scheme.
\<close>

definition matches_url :: "string \<Rightarrow> bool" where
  "matches_url u =
     (map to_lower (take 8 u) = ''https://'' \<and>
      takeWhile subdomain_char (drop 8 u) \<noteq> [] \<and>
      map to_lower (dropWhile subdomain_char (drop 8 u)) = ''.supabase.co'')"

text \<open>
  \<^verbatim>\<open>/^[A-Za-z0-9-_]+\.[A-Za-z0-9-_]+\.[A-Za-z0-9-_]*$/\<close>: three dot-separated
  runs of class characters, the first two non-empty.
\<close>

definition matches_jwt :: "string \<Rightarrow> bool" where
  "matches_jwt k =
     (let s1 = takeWhile jwt_char k; r1 = dropWhile jwt_char k;
          s2 = takeWhile jwt_char (drop 1 r1); r2 = dropWhile jwt_char (drop 1 r1);
          r3 = dropWhile jwt_char (drop 1 r2)
      in s1 \<noteq> [] \<and> take 1 r1 = ''.'' \<and> s2 \<noteq> [] \<and> take 1 r2 = ''.'' \<and> r3 = [])"

definition placeholder :: string where
  "placeholder = ''obbycwigtdzgnyapbdjl''"

definition push_error :: "string \<Rightarrow> ConfigValidationResult \<Rightarrow> ConfigValidationResult" where
  "push_error m r = r\<lparr>errors := errors r @ [m], isValid := False\<rparr>"

definition push_warning :: "string \<Rightarrow> ConfigValidationResult \<Rightarrow> ConfigValidationResult" where
  "push_warning m r = r\<lparr>warnings := warnings r @ [m]\<rparr>"

definition validateSupabaseConfig :: "SupabaseConfig \<Rightarrow> ConfigValidationResult" where
  "validateSupabaseConfig config =
     (let r0 = \<lparr>isValid = True, errors = [], warnings = []\<rparr>;
          r1 = (if url config = [] then push_error ''Supabase URL is missing'' r0 else r0);
          r2 = (if anonKey config = [] then push_error ''Supabase anon key is missing'' r1 else r1);
          r3 = (if url config \<noteq> [] \<and> \<not> matches_url (url config)
                then push_error
                  ''Invalid Supabase URL format. Expected format: https://your-project.supabase.co'' r2
                else r2);
          r4 = (if url config \<noteq> [] \<and> str_includes (url config) placeholder
                then push_error
                  ''Using placeholder Supabase URL. Please update with your actual Supabase project URL.'' r3
                else r3);
          r5 = (if anonKey config \<noteq> [] \<and> \<not> matches_jwt (anonKey config)
                then push_warning
                  ''Supabase anon key does not appear to be a valid JWT token format'' r4
                else r4);
          r6 = (if anonKey config \<noteq> [] \<and> length (anonKey config) < 50
                then push_warning ''Supabase anon key seems unusually short'' r5
                else r5)
      in r6)"

text \<open>
  Module initialisation of \<^verbatim>\<open>lib/supabase.ts\<close>: the configuration is validated, a
  failed validation throws, and only afterwards is the client constructed.
\<close>

datatype client = Client string string

definition createClient :: "string \<Rightarrow> string \<Rightarrow> client" where
  "createClient u k = Client u k"

definition supabase :: "SupabaseConfig \<Rightarrow> string + client" where
  "supabase supabaseConfig =
     (let validation = validateSupabaseConfig supabaseConfig
      in if \<not> isValid validation
         then Inl (''Invalid Supabase configuration: '' @ join '', '' (errors validation))
         else Inr (createClient (url supabaseConfig) (anonKey supabaseConfig)))"

section \<open>Errors and thrown values\<close>

text \<open>
  An error object of the hosted service (\<^verbatim>\<open>PostgrestError\<close>, \<^verbatim>\<open>AuthError\<close>): the
  code reads its \<^verbatim>\<open>message\<close> and its \<^verbatim>\<open>code\<close>. Of a thrown value the code reads
  the message and asks whether it is an \<^verbatim>\<open>Error\<close> instance. \<open>Error m\<close> is an
  \<^verbatim>\<open>Error\<close> instance with message \<open>m\<close>: one made by the application with
  \<^verbatim>\<open>new Error\<close>, or an \<^verbatim>\<open>AuthError\<close> of the service rethrown (\<^verbatim>\<open>AuthError\<close> is a
  subclass of \<^verbatim>\<open>Error\<close>). \<open>Thrown e\<close> is the error object of a table call rethrown
  as it is, a plain object.
\<close>

record ServiceError =
  message :: string
  code :: string

datatype thrown = Error string | Thrown ServiceError

fun message_of :: "thrown \<Rightarrow> string" where
  "message_of (Error m) = m"
| "message_of (Thrown e) = message e"

text \<open>
  \<^verbatim>\<open>formatNetworkError\<close>. Every thrown value of the model is an object with a
  message, so the last line of the source (\<^verbatim>\<open>'An unknown network error occurred'\<close>,
  for a value without one) is not reached.
\<close>

definition formatNetworkError :: "thrown \<Rightarrow> string" where
  "formatNetworkError err =
     (let m = message_of err in
      if str_includes m ''ERR_CONNECTION_CLOSED'' then
        ''Connection was closed unexpectedly. This might be due to network issues or Supabase service problems.''
      else if str_includes m ''ERR_CONNECTION_REFUSED'' then
        ''Connection was refused. Please check if the Supabase URL is correct.''
      else if str_includes m ''ERR_NETWORK_CHANGED'' then
        ''Network connection changed. Please try again.''
      else if str_includes m ''timeout'' then
        ''Request timed out. Please check your network connection.''
      else if str_includes m ''404'' then
        ''The requested resource was not found. Please check your Supabase URL configuration.''
      else m)"

text \<open>
  The test of \<^verbatim>\<open>refreshAuthState\<close> on the text of a session error (lines 107 to
  110), and the test of line 145 on the formatted text: both are case-sensitive
  searches for the listed words and nothing more.
\<close>

definition network_signature :: "string \<Rightarrow> bool" where
  "network_signature m =
     (str_includes m ''Network'' \<or> str_includes m ''fetch'' \<or>
      str_includes m ''connection'' \<or> str_includes m ''ERR_CONNECTION_CLOSED'')"

definition contains_Network_or_connection :: "string \<Rightarrow> bool" where
  "contains_Network_or_connection f = (str_includes f ''Network'' \<or> str_includes f ''connection'')"

section \<open>Data model\<close>

text \<open>
  Identifiers (UUIDs in the service) are natural numbers; instants are milliseconds since
  the epoch. Of a profile row the model keeps the columns the orchestrator writes.
\<close>

record User =
  u_id :: nat
  u_email :: "string option"

datatype Session = Session (session_user: "User option")

definition user_of :: "Session option \<Rightarrow> User option" where
  "user_of s = (case s of None \<Rightarrow> None | Some x \<Rightarrow> session_user x)"

record Profile =
  p_id :: nat
  p_user_id :: nat
  p_email :: string
  p_full_name :: "string option"
  p_created_at :: nat
  p_updated_at :: nat

datatype otp_type = Phone | Email

fun otp_type_name :: "otp_type \<Rightarrow> string" where
  "otp_type_name Phone = ''phone''"
| "otp_type_name Email = ''email''"

record OtpVerification =
  o_id :: nat
  o_user_id :: nat
  o_phone :: "string option"
  o_email :: "string option"
  o_otp_code :: string
  o_otp_type :: otp_type
  o_expires_at :: nat
  o_is_verified :: bool
  o_verified_at :: "nat option"
  o_created_at :: nat

record Notification =
  n_id :: nat
  n_user_id :: nat
  n_title :: string
  n_message :: string
  n_type :: string
  n_category :: string

section \<open>The hosted service\<close>

text \<open>
  The service is outside the repository. Its tables are lists of rows. How it answers a
  call is scripted: \<open>Honest\<close> answers from the tables; \<open>Fail e\<close> resolves with the
  error \<open>e\<close> and changes nothing; \<open>NoRow\<close> performs the call and resolves without a
  row; \<open>Reject t\<close> makes the awaited promise reject with \<open>t\<close>. An exhausted script
  answers honestly. Every call is recorded in \<open>calls\<close>.

  The state of the provider (\<open>user\<close>, \<open>session\<close>, \<open>profile\<close>, \<open>loading\<close>,
  \<open>error\<close>) and the service are fields of one record. \<open>console\<close> holds what
  \<^verbatim>\<open>console.error\<close> and \<^verbatim>\<open>console.warn\<close> print (the label, then the message of
  the error printed with it), and the line by which \<^verbatim>\<open>sendOtp\<close> prints the code;
  \<open>clock\<close> is the present instant, read by \<^verbatim>\<open>Date.now()\<close> and by the database.
\<close>

datatype reply = Honest | Fail ServiceError | NoRow | Reject thrown

datatype call =
    GetSession
  | GetUser
  | SignUp string
  | SelectProfile nat
  | ProbeProfiles
  | InsertProfile nat string
  | UpdateProfile nat
  | InsertOtp nat otp_type string
  | SelectOtp nat otp_type
  | UpdateOtp nat
  | InsertNotification nat

datatype 'a response = Rejected thrown | Resolved "'a option" "ServiceError option"

record world =
  user :: "User option"
  session :: "Session option"
  profile :: "Profile option"
  loading :: bool
  error :: "string option"
  loadingTimeout :: bool
  console :: "string list"
  clock :: nat
  service_session :: "Session option"
  profiles :: "Profile list"
  otp_verifications :: "OtpVerification list"
  notifications :: "Notification list"
  profile_trigger :: bool
  next_id :: nat
  script :: "reply list"
  calls :: "call list"

definition request :: "call \<Rightarrow> world \<Rightarrow> reply \<times> world" where
  "request c w =
     (case script w of
        [] \<Rightarrow> (Honest, w\<lparr>calls := calls w @ [c]\<rparr>)
      | r # rs \<Rightarrow> (r, w\<lparr>script := rs, calls := calls w @ [c]\<rparr>))"

text \<open>The reply that the next call will get.\<close>

definition next_reply :: "world \<Rightarrow> reply" where
  "next_reply w = (case script w of [] \<Rightarrow> Honest | r # _ \<Rightarrow> r)"

definition log :: "string \<Rightarrow> world \<Rightarrow> world" where
  "log line w = w\<lparr>console := console w @ [line]\<rparr>"

definition log_thrown :: "string \<Rightarrow> thrown \<Rightarrow> world \<Rightarrow> world" where
  "log_thrown label t w = log (label @ '' '' @ message_of t) w"

definition pgrst116 :: ServiceError where
  "pgrst116 = \<lparr>message = ''JSON object requested, multiple (or no) rows returned'',
               code = ''PGRST116''\<rparr>"

text \<open>
  \<^verbatim>\<open>.maybeSingle()\<close> on a read: no row is no data and no error, one row is the data,
  several rows are the error \<^verbatim>\<open>PGRST116\<close>. \<^verbatim>\<open>.single()\<close> also reports the empty
  result as \<^verbatim>\<open>PGRST116\<close>.
\<close>

definition maybeSingle :: "'a list \<Rightarrow> 'a response" where
  "maybeSingle rows =
     (case rows of
        [] \<Rightarrow> Resolved None None
      | [r] \<Rightarrow> Resolved (Some r) None
      | _ \<Rightarrow> Resolved None (Some pgrst116))"

definition single :: "'a list \<Rightarrow> 'a response" where
  "single rows =
     (case rows of
        [r] \<Rightarrow> Resolved (Some r) None
      | _ \<Rightarrow> Resolved None (Some pgrst116))"

definition auth_getSession :: "world \<Rightarrow> Session response \<times> world" where
  "auth_getSession w =
     (case request GetSession w of
        (Reject t, w1) \<Rightarrow> (Rejected t, w1)
      | (Fail e, w1) \<Rightarrow> (Resolved None (Some e), w1)
      | (NoRow, w1) \<Rightarrow> (Resolved None None, w1)
      | (Honest, w1) \<Rightarrow> (Resolved (service_session w1) None, w1))"

definition session_missing :: ServiceError where
  "session_missing = \<lparr>message = ''Auth session missing!'', code = ''session_not_found''\<rparr>"

definition auth_getUser :: "world \<Rightarrow> User response \<times> world" where
  "auth_getUser w =
     (case request GetUser w of
        (Reject t, w1) \<Rightarrow> (Rejected t, w1)
      | (Fail e, w1) \<Rightarrow> (Resolved None (Some e), w1)
      | (NoRow, w1) \<Rightarrow> (Resolved None None, w1)
      | (Honest, w1) \<Rightarrow>
          (case user_of (service_session w1) of
             None \<Rightarrow> (Resolved None (Some session_missing), w1)
           | Some u \<Rightarrow> (Resolved (Some u) None, w1)))"

definition new_profile :: "nat \<Rightarrow> nat \<Rightarrow> string \<Rightarrow> nat \<Rightarrow> Profile" where
  "new_profile i uid em t =
     \<lparr>p_id = i, p_user_id = uid, p_email = em, p_full_name = None,
      p_created_at = t, p_updated_at = t\<rparr>"

text \<open>
  \<^verbatim>\<open>auth.signUp\<close>: an honest answer registers a user under a fresh identifier and
  signs it in; when the database has the sign-up trigger (\<open>profile_trigger\<close>), it also
  inserts the user's profile row.
\<close>

definition auth_signUp :: "string \<Rightarrow> world \<Rightarrow> User response \<times> world" where
  "auth_signUp em w =
     (case request (SignUp em) w of
        (Reject t, w1) \<Rightarrow> (Rejected t, w1)
      | (Fail e, w1) \<Rightarrow> (Resolved None (Some e), w1)
      | (NoRow, w1) \<Rightarrow> (Resolved None None, w1)
      | (Honest, w1) \<Rightarrow>
          (let u = \<lparr>u_id = next_id w1, u_email = Some em\<rparr>;
               w2 = w1\<lparr>service_session := Some (Session (Some u)), next_id := next_id w1 + 1\<rparr>;
               w3 = (if profile_trigger w2
                     then w2\<lparr>profiles := profiles w2 @ [new_profile (next_id w2) (u_id u) em (clock w2)],
                             next_id := next_id w2 + 1\<rparr>
                     else w2)
           in (Resolved (Some u) None, w3)))"

definition select_profile :: "nat \<Rightarrow> world \<Rightarrow> Profile response \<times> world" where
  "select_profile uid w =
     (case request (SelectProfile uid) w of
        (Reject t, w1) \<Rightarrow> (Rejected t, w1)
      | (Fail e, w1) \<Rightarrow> (Resolved None (Some e), w1)
      | (NoRow, w1) \<Rightarrow> (Resolved None None, w1)
      | (Honest, w1) \<Rightarrow> (maybeSingle (filter (\<lambda>p. p_user_id p = uid) (profiles w1)), w1))"

definition probe_profiles :: "world \<Rightarrow> nat response \<times> world" where
  "probe_profiles w =
     (case request ProbeProfiles w of
        (Reject t, w1) \<Rightarrow> (Rejected t, w1)
      | (Fail e, w1) \<Rightarrow> (Resolved None (Some e), w1)
      | (NoRow, w1) \<Rightarrow> (Resolved None None, w1)
      | (Honest, w1) \<Rightarrow>
          (case profiles w1 of
             [] \<Rightarrow> (Resolved None None, w1)
           | p # _ \<Rightarrow> (Resolved (Some (p_id p)) None, w1)))"

definition insert_profile :: "nat \<Rightarrow> string \<Rightarrow> world \<Rightarrow> Profile response \<times> world" where
  "insert_profile uid em w =
     (case request (InsertProfile uid em) w of
        (Reject t, w1) \<Rightarrow> (Rejected t, w1)
      | (Fail e, w1) \<Rightarrow> (Resolved None (Some e), w1)
      | (r, w1) \<Rightarrow>
          (let row = new_profile (next_id w1) uid em (clock w1);
               w2 = w1\<lparr>profiles := profiles w1 @ [row], next_id := next_id w1 + 1\<rparr>
           in (if r = NoRow then Resolved None None else Resolved (Some row) None, w2)))"

definition update_profile :: "nat \<Rightarrow> (Profile \<Rightarrow> Profile) \<Rightarrow> world \<Rightarrow> unit response \<times> world" where
  "update_profile uid f w =
     (case request (UpdateProfile uid) w of
        (Reject t, w1) \<Rightarrow> (Rejected t, w1)
      | (Fail e, w1) \<Rightarrow> (Resolved None (Some e), w1)
      | (_, w1) \<Rightarrow>
          (Resolved None None,
           w1\<lparr>profiles := map (\<lambda>p. if p_user_id p = uid then f p else p) (profiles w1)\<rparr>))"

definition insert_otp ::
  "nat \<Rightarrow> string option \<Rightarrow> string option \<Rightarrow> string \<Rightarrow> otp_type \<Rightarrow> nat \<Rightarrow> world \<Rightarrow>
   unit response \<times> world" where
  "insert_otp uid ph em otp ty expiresAt w =
     (case request (InsertOtp uid ty otp) w of
        (Reject t, w1) \<Rightarrow> (Rejected t, w1)
      | (Fail e, w1) \<Rightarrow> (Resolved None (Some e), w1)
      | (_, w1) \<Rightarrow>
          (let row = \<lparr>o_id = next_id w1, o_user_id = uid, o_phone = ph, o_email = em,
                      o_otp_code = otp, o_otp_type = ty, o_expires_at = expiresAt,
                      o_is_verified = False, o_verified_at = None, o_created_at = clock w1\<rparr>
           in (Resolved None None,
               w1\<lparr>otp_verifications := otp_verifications w1 @ [row], next_id := next_id w1 + 1\<rparr>)))"

text \<open>
  The filters of the lookup in \<^verbatim>\<open>verifyOtp\<close>: same user, same channel, expiry after
  the present instant, not verified.
\<close>

definition eligible :: "nat \<Rightarrow> otp_type \<Rightarrow> nat \<Rightarrow> OtpVerification \<Rightarrow> bool" where
  "eligible uid ty now r =
     (o_user_id r = uid \<and> o_otp_type r = ty \<and> now < o_expires_at r \<and> \<not> o_is_verified r)"

text \<open>
  \<^verbatim>\<open>.order('created_at', { ascending: false }).limit(1)\<close>: a row whose creation
  instant no other row exceeds; among rows created at the same instant the model returns
  the first of the table.
\<close>

fun latest :: "OtpVerification list \<Rightarrow> OtpVerification list" where
  "latest [] = []"
| "latest (r # rs) =
     (case latest rs of
        [] \<Rightarrow> [r]
      | m # _ \<Rightarrow> if o_created_at r < o_created_at m then [m] else [r])"

definition select_otp :: "nat \<Rightarrow> otp_type \<Rightarrow> world \<Rightarrow> OtpVerification response \<times> world" where
  "select_otp uid ty w =
     (case request (SelectOtp uid ty) w of
        (Reject t, w1) \<Rightarrow> (Rejected t, w1)
      | (Fail e, w1) \<Rightarrow> (Resolved None (Some e), w1)
      | (NoRow, w1) \<Rightarrow> (single [], w1)
      | (Honest, w1) \<Rightarrow>
          (single (latest (filter (eligible uid ty (clock w1)) (otp_verifications w1))), w1))"

text \<open>
  \<^verbatim>\<open>.update({ is_verified: true, verified_at: ... }).eq('id', data.id)\<close>: every row
  with that identifier is marked.
\<close>

definition mark_verified :: "nat \<Rightarrow> nat \<Rightarrow> OtpVerification \<Rightarrow> OtpVerification" where
  "mark_verified i now r =
     (if o_id r = i then r\<lparr>o_is_verified := True, o_verified_at := Some now\<rparr> else r)"

definition update_otp :: "nat \<Rightarrow> world \<Rightarrow> unit response \<times> world" where
  "update_otp i w =
     (case request (UpdateOtp i) w of
        (Reject t, w1) \<Rightarrow> (Rejected t, w1)
      | (Fail e, w1) \<Rightarrow> (Resolved None (Some e), w1)
      | (_, w1) \<Rightarrow>
          (Resolved None None,
           w1\<lparr>otp_verifications := map (mark_verified i (clock w1)) (otp_verifications w1)\<rparr>))"

definition welcome_notification :: "nat \<Rightarrow> nat \<Rightarrow> Notification" where
  "welcome_notification i uid =
     \<lparr>n_id = i, n_user_id = uid,
      n_title = map char_of [240, 159, 142, 137 :: nat] @ '' Welcome to Our Investment Platform!'',
      n_message = ''We'' @ [CHR 0x27] @ ''re excited to have you on board. Let'' @ [CHR 0x27] @
        ''s get you set up with a quick onboarding process to start your wealth journey.'',
      n_type = ''success'', n_category = ''onboarding''\<rparr>"

definition insert_notification :: "nat \<Rightarrow> world \<Rightarrow> unit response \<times> world" where
  "insert_notification uid w =
     (case request (InsertNotification uid) w of
        (Reject t, w1) \<Rightarrow> (Rejected t, w1)
      | (Fail e, w1) \<Rightarrow> (Resolved None (Some e), w1)
      | (_, w1) \<Rightarrow>
          (Resolved None None,
           w1\<lparr>notifications := notifications w1 @ [welcome_notification (next_id w1) uid],
              next_id := next_id w1 + 1\<rparr>))"

section \<open>Profile fetch-or-create (\<^verbatim>\<open>fetchProfile\<close>, \<^verbatim>\<open>createProfile\<close>)\<close>

text \<open>
  The two functions call each other. Each is a \<^verbatim>\<open>try\<close> block whose \<^verbatim>\<open>catch\<close> logs
  and rethrows and whose \<^verbatim>\<open>finally\<close> stops loading. \<open>fetch_query\<close> is the part of
  \<^verbatim>\<open>fetchProfile\<close> up to the test of \<^verbatim>\<open>data\<close> (lines 358 to 388): it returns the
  thrown value or the row found. \<open>create_insert\<close> is the part of \<^verbatim>\<open>createProfile\<close>
  up to the test of \<^verbatim>\<open>profileData\<close> (lines 412 to 434).
\<close>

definition fetch_query :: "nat \<Rightarrow> world \<Rightarrow> (thrown + Profile option) \<times> world" where
  "fetch_query userId w =
     (case select_profile userId w of
        (Rejected t, w1) \<Rightarrow> (Inl t, w1)
      | (Resolved data None, w1) \<Rightarrow> (Inr data, w1)
      | (Resolved data (Some e), w1) \<Rightarrow>
          if str_includes (message e) ''406'' \<or> str_includes (message e) ''Not Acceptable'' then
            (case probe_profiles
                    (log ''AuthProvider: 406 Not Acceptable error - this might be due to RLS policies'' w1) of
               (Rejected t, w2) \<Rightarrow> (Inl t, w2)
             | (Resolved _ (Some testError), w2) \<Rightarrow>
                 (Inl (Error ''Cannot access user profiles. Please check your Supabase table policies.''),
                  log (''AuthProvider: Cannot access profiles table at all: '' @ message testError) w2)
             | (Resolved _ None, w2) \<Rightarrow>
                 (Inl (Error ''Access denied to your profile. Please contact support.''), w2))
          else if code e \<noteq> ''PGRST116'' then (Inl (Thrown e), w1)
          else (Inr data, w1))"

definition create_insert :: "nat \<Rightarrow> world \<Rightarrow> (thrown + Profile option) \<times> world" where
  "create_insert userId w =
     (case auth_getUser w of
        (Rejected t, w1) \<Rightarrow> (Inl t, w1)
      | (Resolved _ (Some userError), w1) \<Rightarrow> (Inl (Error (message userError)), w1)
      | (Resolved userData None, w1) \<Rightarrow>
          (let email = (case userData of
                          None \<Rightarrow> []
                        | Some u \<Rightarrow> (case u_email u of None \<Rightarrow> [] | Some e \<Rightarrow> e))
           in case insert_profile userId email w1 of
                (Rejected t, w2) \<Rightarrow> (Inl t, w2)
              | (Resolved _ (Some profileError), w2) \<Rightarrow>
                  (Inl (Error (''Failed to create user profile: '' @ message profileError)),
                   log (''AuthProvider: Profile creation failed: '' @ message profileError) w2)
              | (Resolved profileData None, w2) \<Rightarrow> (Inr profileData, w2)))"

definition stop_loading :: "world \<Rightarrow> world" where
  "stop_loading w = w\<lparr>loading := False\<rparr>"

lemma script_request: "request c w = (r, w1) \<Longrightarrow> length (script w1) \<le> length (script w)"
  by (auto simp: request_def split: list.splits)

lemma script_request_NoRow:
  "request c w = (NoRow, w1) \<Longrightarrow> length (script w1) < length (script w)"
  by (auto simp: request_def split: list.splits)

lemma script_log [simp]: "script (log line w) = script w"
  by (simp add: log_def)

lemma script_fetch_query:
  "fetch_query userId w = (r, w1) \<Longrightarrow> length (script w1) \<le> length (script w)"
  by (auto simp: fetch_query_def select_profile_def probe_profiles_def
           split: prod.splits reply.splits response.splits option.splits if_splits list.splits
           dest!: script_request)

lemma script_create_insert:
  "create_insert userId w = (Inr None, w1) \<Longrightarrow> length (script w1) < length (script w)"
  by (auto simp: create_insert_def auth_getUser_def insert_profile_def Let_def
           split: prod.splits reply.splits response.splits option.splits if_splits
           dest!: script_request script_request_NoRow)

function fetchProfile :: "nat \<Rightarrow> world \<Rightarrow> (thrown + unit) \<times> world"
  and createProfile :: "nat \<Rightarrow> world \<Rightarrow> (thrown + unit) \<times> world" where
  "fetchProfile userId w =
     (case fetch_query userId w of
        (Inl t, w1) \<Rightarrow>
          (Inl t, stop_loading (log_thrown ''AuthProvider: Error fetching profile:'' t w1))
      | (Inr (Some data), w1) \<Rightarrow> (Inr (), stop_loading (w1\<lparr>profile := Some data\<rparr>))
      | (Inr None, w1) \<Rightarrow>
          (case createProfile userId w1 of
             (Inl t, w2) \<Rightarrow>
               (Inl t, stop_loading (log_thrown ''AuthProvider: Error fetching profile:'' t w2))
           | (Inr _, w2) \<Rightarrow> (Inr (), stop_loading w2)))"
| "createProfile userId w =
     (case create_insert userId w of
        (Inl t, w1) \<Rightarrow>
          (Inl t, stop_loading (log_thrown ''AuthProvider: Error creating profile:'' t w1))
      | (Inr (Some profileData), w1) \<Rightarrow> (Inr (), stop_loading (w1\<lparr>profile := Some profileData\<rparr>))
      | (Inr None, w1) \<Rightarrow>
          (case fetchProfile userId
                  (log ''AuthProvider: Profile creation succeeded but no data returned'' w1) of
             (Inl t, w2) \<Rightarrow>
               (Inl t, stop_loading (log_thrown ''AuthProvider: Error creating profile:'' t w2))
           | (Inr _, w2) \<Rightarrow> (Inr (), stop_loading w2)))"
  by pat_completeness auto
termination
proof (relation "measure (\<lambda>x. case x of
                      Inl (u, w) \<Rightarrow> 2 * length (script w) + 2
                    | Inr (u, w) \<Rightarrow> 2 * length (script w) + 1)")
  show "wf (measure (\<lambda>x. case x of
                      Inl (u, w) \<Rightarrow> 2 * length (script w) + 2
                    | Inr (u, w) \<Rightarrow> 2 * length (script w) + (1::nat)))"
    by simp
next
  fix userId w x1 w1 x2 x3
  assume "(x1, w1) = fetch_query userId w"
  then have "length (script w1) \<le> length (script w)"
    using script_fetch_query [of userId w x1 w1] by simp
  then show "(Inr (userId, w1), Inl (userId, w)) \<in> measure (\<lambda>x. case x of
                      Inl (u, w) \<Rightarrow> 2 * length (script w) + 2
                    | Inr (u, w) \<Rightarrow> 2 * length (script w) + 1)"
    by simp
next
  fix userId w x1 w1 x2
  assume "(x1, w1) = create_insert userId w" "x1 = Inr x2" "x2 = None"
  then have "length (script w1) < length (script w)"
    using script_create_insert [of userId w w1] by simp
  then show "(Inl (userId, log ''AuthProvider: Profile creation succeeded but no data returned'' w1),
              Inr (userId, w)) \<in> measure (\<lambda>x. case x of
                      Inl (u, w) \<Rightarrow> 2 * length (script w) + 2
                    | Inr (u, w) \<Rightarrow> 2 * length (script w) + 1)"
    by simp
qed

declare fetchProfile.simps [simp del] createProfile.simps [simp del]

section \<open>Session refresh with retry (\<^verbatim>\<open>refreshAuthState\<close>)\<close>

text \<open>
  A timer set by \<^verbatim>\<open>setTimeout\<close> is returned as a value: the attempt to run and the
  delay in milliseconds. \<^verbatim>\<open>checkConnectivity\<close> is awaited first; it catches whatever
  its probes throw, touches no state and its result is dropped, so it leaves no trace in
  the model.
\<close>

datatype timer = Retry nat nat

definition maxRetries :: nat where
  "maxRetries = 3"

definition refresh_catch :: "nat \<Rightarrow> thrown \<Rightarrow> world \<Rightarrow> timer option \<times> world" where
  "refresh_catch attempt err w =
     (let w1 = log_thrown ''AuthProvider: Error refreshing auth state:'' err w;
          formattedError = formatNetworkError err
      in if attempt < maxRetries then (Some (Retry (attempt + 1) (attempt * 2000)), w1)
         else (None,
               (if \<not> str_includes formattedError ''Network'' \<and>
                   \<not> str_includes formattedError ''connection''
                then (stop_loading w1)\<lparr>error := Some formattedError\<rparr>
                else stop_loading w1)))"

definition refreshAuthState :: "nat \<Rightarrow> world \<Rightarrow> timer option \<times> world" where
  "refreshAuthState attempt w =
     (case auth_getSession (w\<lparr>loading := True, error := None\<rparr>) of
        (Rejected t, w1) \<Rightarrow> refresh_catch attempt t w1
      | (Resolved currentSession sessionError, w1) \<Rightarrow>
          (case (case sessionError of
                   None \<Rightarrow> Inr w1
                 | Some e \<Rightarrow>
                     if attempt < maxRetries \<and>
                        (str_includes (message e) ''Network'' \<or> str_includes (message e) ''fetch'' \<or>
                         str_includes (message e) ''connection'' \<or>
                         str_includes (message e) ''ERR_CONNECTION_CLOSED'')
                     then Inl (Retry (attempt + 1) (attempt * 2000))
                     else Inr (log (''AuthProvider: Session fetch failed, proceeding with current state '' @
                                    message e) w1)) of
             Inl tm \<Rightarrow> (Some tm, w1)
           | Inr w2 \<Rightarrow>
               (let w3 = w2\<lparr>session := currentSession, user := user_of currentSession\<rparr>
                in case user_of currentSession of
                     Some u \<Rightarrow>
                       (case fetchProfile (u_id u) w3 of
                          (Inl t, w4) \<Rightarrow> refresh_catch attempt t w4
                        | (Inr _, w4) \<Rightarrow> (None, w4))
                   | None \<Rightarrow> (None, stop_loading (w3\<lparr>profile := None\<rparr>)))))"

lemma refresh_catch_timer:
  "refresh_catch attempt t w = (Some (Retry a d), w') \<Longrightarrow> attempt < 3 \<and> a = attempt + 1"
  by (auto simp: refresh_catch_def Let_def maxRetries_def split: if_splits)

lemma refreshAuthState_timer:
  "refreshAuthState attempt w = (Some (Retry a d), w') \<Longrightarrow> attempt < 3 \<and> a = attempt + 1"
  by (auto simp: refreshAuthState_def Let_def maxRetries_def
           split: prod.splits response.splits option.splits if_splits sum.splits
           dest: refresh_catch_timer)

text \<open>
  The chain of attempts that one call starts: every timer fires after its delay and runs
  the next attempt. The result lists the attempts run, in order.
\<close>

function run_refresh :: "nat \<Rightarrow> world \<Rightarrow> nat list \<times> world" where
  "run_refresh attempt w =
     (case refreshAuthState attempt w of
        (None, w1) \<Rightarrow> ([attempt], w1)
      | (Some (Retry a d), w1) \<Rightarrow>
          (case run_refresh a (w1\<lparr>clock := clock w1 + d\<rparr>) of
             (as, w2) \<Rightarrow> (attempt # as, w2)))"
  by pat_completeness auto
termination
proof (relation "measure (\<lambda>(attempt, w). 3 - attempt)")
  show "wf (measure (\<lambda>(attempt, w). 3 - attempt))"
    by simp
next
  fix attempt w x1 w1 x2 a d
  assume "(x1, w1) = refreshAuthState attempt w" "x1 = Some x2" "x2 = Retry a d"
  then have "attempt < 3 \<and> a = attempt + 1"
    using refreshAuthState_timer [of attempt w a d w1] by simp
  then show "((a, w1\<lparr>clock := clock w1 + d\<rparr>), (attempt, w)) \<in> measure (\<lambda>(attempt, w). 3 - attempt)"
    by auto
qed

declare run_refresh.simps [simp del]

text \<open>
  The replies that count as a network-shaped failure of an attempt: an error whose text
  matches one of the four signatures, returned or thrown.
\<close>

definition network_failure :: "reply \<Rightarrow> bool" where
  "network_failure r =
     (case r of
        Fail e \<Rightarrow> network_signature (message e)
      | Reject t \<Rightarrow> network_signature (message_of t)
      | _ \<Rightarrow> False)"

section \<open>The auth-change handler (callback of \<^verbatim>\<open>onAuthStateChange\<close>)\<close>

datatype AuthChangeEvent =
  INITIAL_SESSION | SIGNED_IN | SIGNED_OUT | TOKEN_REFRESHED | USER_UPDATED | OTHER string

text \<open>
  \<open>isMounted\<close> is the flag of the enclosing effect. The \<^verbatim>\<open>switch\<close> on the event only
  writes to the console at the information level. A thrown \<^verbatim>\<open>Error\<close> instance
  (\<^verbatim>\<open>err instanceof Error\<close>) gives its message; a rethrown error object of a table
  call gives the fixed text.
\<close>

definition onAuthStateChange :: "bool \<Rightarrow> AuthChangeEvent \<Rightarrow> Session option \<Rightarrow> world \<Rightarrow> world" where
  "onAuthStateChange isMounted event sess w =
     (let w0 = w\<lparr>loadingTimeout := False\<rparr>
      in if \<not> isMounted then w0
         else
           (let w1 = w0\<lparr>session := sess, user := user_of sess\<rparr>
            in case user_of sess of
                 Some u \<Rightarrow>
                   (case fetchProfile (u_id u) w1 of
                      (Inl err, w2) \<Rightarrow>
                        (log_thrown ''AuthProvider: Error fetching profile:'' err w2)
                          \<lparr>error := Some (case err of
                                            Error m \<Rightarrow> m
                                          | Thrown _ \<Rightarrow> ''Failed to fetch profile'')\<rparr>
                    | (Inr _, w2) \<Rightarrow> w2)
               | None \<Rightarrow> (stop_loading (w1\<lparr>profile := None\<rparr>))\<lparr>error := None\<rparr>))"

section \<open>Sign-up and the welcome notification\<close>

definition sendWelcomeNotification :: "nat \<Rightarrow> world \<Rightarrow> (thrown + unit) \<times> world" where
  "sendWelcomeNotification userId w =
     (case auth_getSession w of
        (Rejected t, w1) \<Rightarrow> (Inr (), log_thrown ''Error sending welcome notification:'' t w1)
      | (Resolved _ (Some sessionError), w1) \<Rightarrow>
          (Inr (), log (''Cannot send notification: Auth session error: '' @ message sessionError) w1)
      | (Resolved sess None, w1) \<Rightarrow>
          (case user_of sess of
             None \<Rightarrow> (Inr (), log ''Cannot send notification: User not authenticated'' w1)
           | Some _ \<Rightarrow>
               (case insert_notification userId w1 of
                  (Rejected t, w2) \<Rightarrow>
                    (Inr (), log_thrown ''Error sending welcome notification:'' t w2)
                | (Resolved _ (Some e), w2) \<Rightarrow>
                    (Inr (), log (''Error sending welcome notification: '' @ message e) w2)
                | (Resolved _ None, w2) \<Rightarrow> (Inr (), w2))))"

text \<open>
  \<open>signUp_reconcile\<close> is \<^verbatim>\<open>signUp\<close> up to the notification step (lines 458 to 502):
  registration, the wait of one second, and the update of the profile row when one
  exists. It returns the thrown value, or the registered user when there is one.
\<close>

definition signUp_reconcile ::
  "string \<Rightarrow> string \<Rightarrow> string \<Rightarrow> world \<Rightarrow> (thrown + User option) \<times> world" where
  "signUp_reconcile email password fullName w =
     (case auth_signUp email w of
        (Rejected t, w1) \<Rightarrow> (Inl t, w1)
      | (Resolved _ (Some e), w1) \<Rightarrow>
          (Inl (Error (message e)), log (''Sign up error details: '' @ message e) w1)
      | (Resolved None None, w1) \<Rightarrow> (Inr None, w1)
      | (Resolved (Some u) None, w1) \<Rightarrow>
          (let w2 = w1\<lparr>clock := clock w1 + 1000\<rparr>
           in case select_profile (u_id u) w2 of
                (Rejected t, w3) \<Rightarrow>
                  (Inr (Some u), log_thrown ''Error updating profile after signup:'' t w3)
              | (Resolved None _, w3) \<Rightarrow> (Inr (Some u), w3)
              | (Resolved (Some existingProfile) _, w3) \<Rightarrow>
                  (case update_profile (u_id u)
                          (\<lambda>p. p\<lparr>p_full_name := Some fullName, p_updated_at := clock w3\<rparr>) w3 of
                     (Rejected t, w4) \<Rightarrow>
                       (Inr (Some u), log_thrown ''Error updating profile after signup:'' t w4)
                   | (Resolved _ (Some updateError), w4) \<Rightarrow>
                       (Inr (Some u), log (''Profile update error: '' @ message updateError) w4)
                   | (Resolved _ None, w4) \<Rightarrow> (Inr (Some u), w4))))"

definition signUp :: "string \<Rightarrow> string \<Rightarrow> string \<Rightarrow> world \<Rightarrow> (thrown + unit) \<times> world" where
  "signUp email password fullName w =
     (case signUp_reconcile email password fullName w of
        (Inl t, w1) \<Rightarrow> (Inl t, log_thrown ''Error signing up:'' t w1)
      | (Inr None, w1) \<Rightarrow> (Inr (), w1)
      | (Inr (Some u), w1) \<Rightarrow>
          (case sendWelcomeNotification (u_id u) w1 of
             (Inl err, w2) \<Rightarrow> (Inr (), log_thrown ''Could not send welcome notification:'' err w2)
           | (Inr _, w2) \<Rightarrow> (Inr (), w2)))"

section \<open>Profile update\<close>

text \<open>
  \<^verbatim>\<open>Partial<Profile>\<close> is the function that overwrites the columns it names.
\<close>

definition updateProfile :: "(Profile \<Rightarrow> Profile) \<Rightarrow> world \<Rightarrow> (thrown + unit) \<times> world" where
  "updateProfile updates w =
     (case user w of
        None \<Rightarrow> (Inl (Error ''No user logged in''), w)
      | Some u \<Rightarrow>
          (case update_profile (u_id u) (\<lambda>p. (updates p)\<lparr>p_updated_at := clock w\<rparr>) w of
             (Rejected t, w1) \<Rightarrow> (Inl t, log_thrown ''Error updating profile:'' t w1)
           | (Resolved _ (Some e), w1) \<Rightarrow>
               (Inl (Thrown e),
                log (''Error updating profile: '' @ message e)
                  (log (''Profile update error details: '' @ message e) w1))
           | (Resolved _ None, w1) \<Rightarrow>
               (case fetchProfile (u_id u) w1 of
                  (Inl t, w2) \<Rightarrow> (Inl t, log_thrown ''Error updating profile:'' t w2)
                | (Inr _, w2) \<Rightarrow> (Inr (), w2))))"

section \<open>One-time codes (\<^verbatim>\<open>sendOtp\<close>, \<^verbatim>\<open>verifyOtp\<close>)\<close>

text \<open>
  \<^verbatim>\<open>Number.prototype.toString\<close> on a non-negative integer: its decimal digits.
\<close>

definition digit_char :: "nat \<Rightarrow> char" where
  "digit_char d = ''0123456789'' ! d"

function toString :: "nat \<Rightarrow> string" where
  "toString n = (if n < 10 then [digit_char n] else toString (n div 10) @ [digit_char (n mod 10)])"
  by pat_completeness auto
termination
  by (relation "measure id") auto

declare toString.simps [simp del]

text \<open>
  JavaScript numbers are IEEE 754 doubles: the result of \<^verbatim>\<open>*\<close> and of \<^verbatim>\<open>+\<close> is the
  exact result rounded to the nearest double, ties to the even significand. A double is
  a real number here. \<open>exponent y\<close> is the binade of \<open>y\<close>, from \<open>-1022\<close> (which
  also holds the subnormal numbers) to \<open>1023\<close>; doubles of that binade are the multiples
  of \<open>ulp y\<close>, with 53 significant bits. \<open>to_double\<close> rounds a real of magnitude
  below \<open>2 ^ 1024\<close>; nothing here overflows.
\<close>

function exponent_from :: "int \<Rightarrow> real \<Rightarrow> int" where
  "exponent_from e y = (if 1023 \<le> e \<or> y < 2 powi (e + 1) then e else exponent_from (e + 1) y)"
  by pat_completeness auto
termination
  by (relation "measure (\<lambda>(e, y). nat (1023 - e))") auto

declare exponent_from.simps [simp del]

definition exponent :: "real \<Rightarrow> int" where
  "exponent y = exponent_from (- 1022) \<bar>y\<bar>"

definition ulp :: "real \<Rightarrow> real" where
  "ulp y = 2 powi (exponent y - 52)"

definition round_half_even :: "real \<Rightarrow> int" where
  "round_half_even q =
     (let f = \<lfloor>q\<rfloor> in
      if q - of_int f < 1 / 2 then f
      else if 1 / 2 < q - of_int f then f + 1
      else if even f then f else f + 1)"

definition to_double :: "real \<Rightarrow> real" where
  "to_double y = of_int (round_half_even (y / ulp y)) * ulp y"

definition is_double :: "real \<Rightarrow> bool" where
  "is_double x = (to_double x = x)"

text \<open>
  \<^verbatim>\<open>Math.floor(100000 + Math.random() * 900000)\<close>, with the value of
  \<^verbatim>\<open>Math.random()\<close> as the argument \<open>rnd\<close>, a double in \<open>[0, 1)\<close>. The literals
  are doubles; the product is rounded, then the sum.
\<close>

definition otp_number :: "real \<Rightarrow> nat" where
  "otp_number rnd = nat \<lfloor>to_double (100000 + to_double (rnd * 900000))\<rfloor>"

text \<open>
  The number that a string of decimal digits denotes (what \<^verbatim>\<open>Number(s)\<close> returns on
  such a string), used to say which string \<^verbatim>\<open>toString\<close> returns.
\<close>

definition digit_value :: "char \<Rightarrow> nat" where
  "digit_value c = length (takeWhile (\<lambda>d. d \<noteq> c) ''0123456789'')"

definition decimal_value :: "string \<Rightarrow> nat" where
  "decimal_value s = foldl (\<lambda>acc c. 10 * acc + digit_value c) 0 s"

definition generate_otp :: "real \<Rightarrow> string" where
  "generate_otp rnd = toString (otp_number rnd)"

text \<open>
  Both functions test \<^verbatim>\<open>user\<close> and throw before the \<^verbatim>\<open>try\<close> block; the block's
  \<^verbatim>\<open>catch\<close> turns every thrown value into the result \<^verbatim>\<open>false\<close>. \<open>sendOtp_try\<close> and
  \<open>verifyOtp_try\<close> are the \<^verbatim>\<open>try\<close> blocks.
\<close>

definition sendOtp_try ::
  "User \<Rightarrow> string \<Rightarrow> string \<Rightarrow> otp_type \<Rightarrow> real \<Rightarrow> world \<Rightarrow> (thrown + bool) \<times> world" where
  "sendOtp_try u phone email type rnd w =
     (let otp = generate_otp rnd;
          expiresAt = clock w + 10 * 60 * 1000
      in case insert_otp (u_id u)
                (if type = Phone then Some phone else None)
                (if type = Email then Some email else None)
                otp type expiresAt w of
           (Rejected t, w1) \<Rightarrow> (Inl t, w1)
         | (Resolved _ (Some e), w1) \<Rightarrow>
             (Inl (Thrown e), log (''OTP send error details: '' @ message e) w1)
         | (Resolved _ None, w1) \<Rightarrow>
             (Inr True, log (''OTP for '' @ otp_type_name type @ '': '' @ otp) w1))"

definition sendOtp ::
  "string \<Rightarrow> string \<Rightarrow> otp_type \<Rightarrow> real \<Rightarrow> world \<Rightarrow> (thrown + bool) \<times> world" where
  "sendOtp phone email type rnd w =
     (case user w of
        None \<Rightarrow> (Inl (Error ''No user logged in''), w)
      | Some u \<Rightarrow>
          (case sendOtp_try u phone email type rnd w of
             (Inl t, w1) \<Rightarrow> (Inr False, log_thrown ''Error sending OTP:'' t w1)
           | (Inr b, w1) \<Rightarrow> (Inr b, w1)))"

definition verifyOtp_try :: "User \<Rightarrow> string \<Rightarrow> otp_type \<Rightarrow> world \<Rightarrow> (thrown + bool) \<times> world" where
  "verifyOtp_try u otp type w =
     (case select_otp (u_id u) type w of
        (Rejected t, w1) \<Rightarrow> (Inl t, w1)
      | (Resolved _ (Some e), w1) \<Rightarrow>
          (Inl (Error ''No valid OTP found''),
           log (''OTP verification error details: '' @ message e) w1)
      | (Resolved None None, w1) \<Rightarrow>
          (Inl (Error ''No valid OTP found''), log ''OTP verification error details:'' w1)
      | (Resolved (Some data) None, w1) \<Rightarrow>
          if o_otp_code data = otp then
            (case update_otp (o_id data) w1 of
               (Rejected t, w2) \<Rightarrow> (Inl t, w2)
             | (Resolved _ (Some updateError), w2) \<Rightarrow>
                 (Inl (Thrown updateError),
                  log (''OTP verification update error details: '' @ message updateError) w2)
             | (Resolved _ None, w2) \<Rightarrow> (Inr True, w2))
          else (Inr False, w1))"

definition verifyOtp :: "string \<Rightarrow> otp_type \<Rightarrow> world \<Rightarrow> (thrown + bool) \<times> world" where
  "verifyOtp otp type w =
     (case user w of
        None \<Rightarrow> (Inl (Error ''No user logged in''), w)
      | Some u \<Rightarrow>
          (case verifyOtp_try u otp type w of
             (Inl t, w1) \<Rightarrow> (Inr False, log_thrown ''Error verifying OTP:'' t w1)
           | (Inr b, w1) \<Rightarrow> (Inr b, w1)))"

section \<open>A sample state\<close>

text \<open>
  A freshly mounted provider over an empty database, used to evaluate the functions on
  concrete inputs.
\<close>

definition world0 :: world where
  "world0 =
     \<lparr>user = None, session = None, profile = None, loading = True, error = None,
      loadingTimeout = True, console = [], clock = 1000,
      service_session = None, profiles = [], otp_verifications = [], notifications = [],
      profile_trigger = False, next_id = 1, script = [], calls = []\<rparr>"

definition user0 :: User where
  "user0 = \<lparr>u_id = 7, u_email = Some ''asha@example.com''\<rparr>"

definition denied :: ServiceError where
  "denied = \<lparr>message = ''permission denied for table profiles'', code = ''42501''\<rparr>"

definition signup_world :: world where
  "signup_world = world0\<lparr>profile_trigger := True, script := [Honest, Honest, Honest, Fail denied]\<rparr>"

definition signed_in_world :: world where
  "signed_in_world =
     world0\<lparr>user := Some user0, session := Some (Session (Some user0)),
            service_session := Some (Session (Some user0))\<rparr>"

definition net_error :: ServiceError where
  "net_error = \<lparr>message = ''Network request failed'', code = []\<rparr>"

definition closed_error :: thrown where
  "closed_error = Error ''net::ERR_CONNECTION_CLOSED''"

text \<open>
  The signed-in user asks for a code by phone at instant 1000, and for a second one at
  instant 2000; both draws are \<open>1/2\<close>.
\<close>

definition one_code_world :: world where
  "one_code_world =
     (snd (sendOtp ''+919800000000'' [] Phone (1 / 2) signed_in_world))\<lparr>clock := 2000\<rparr>"

definition two_codes_world :: world where
  "two_codes_world =
     (snd (sendOtp ''+919800000000'' [] Phone (1 / 2) one_code_world))\<lparr>clock := 3000\<rparr>"

definition code_row :: "nat \<Rightarrow> nat \<Rightarrow> OtpVerification" where
  "code_row i t =
     \<lparr>o_id = i, o_user_id = 7, o_phone = Some ''+919800000000'', o_email = None,
      o_otp_code = ''550000'', o_otp_type = Phone, o_expires_at = t + 600000,
      o_is_verified = False, o_verified_at = None, o_created_at = t\<rparr>"

section \<open>Properties\<close>

lemma includes_nonempty: "str_includes s sub \<Longrightarrow> sub \<noteq> [] \<Longrightarrow> s \<noteq> []"
  by (cases s) (auto simp: str_includes.simps)

lemma validate_isValid:
  "isValid (validateSupabaseConfig c) =
     (url c \<noteq> [] \<and> anonKey c \<noteq> [] \<and> matches_url (url c) \<and> \<not> str_includes (url c) placeholder)"
  by (simp add: validateSupabaseConfig_def Let_def push_error_def push_warning_def)

lemma validate_errors_key_independent:
  "anonKey c \<noteq> [] \<Longrightarrow> k \<noteq> [] \<Longrightarrow>
   errors (validateSupabaseConfig (c\<lparr>anonKey := k\<rparr>)) = errors (validateSupabaseConfig c)"
  by (simp add: validateSupabaseConfig_def Let_def push_error_def push_warning_def)

lemma validate_warnings:
  "warnings (validateSupabaseConfig c) =
     (if anonKey c \<noteq> [] \<and> \<not> matches_jwt (anonKey c)
      then [''Supabase anon key does not appear to be a valid JWT token format''] else []) @
     (if anonKey c \<noteq> [] \<and> length (anonKey c) < 50
      then [''Supabase anon key seems unusually short''] else [])"
  by (simp add: validateSupabaseConfig_def Let_def push_error_def push_warning_def)

lemma validate_placeholder_error:
  "str_includes (url c) placeholder \<Longrightarrow>
   ''Using placeholder Supabase URL. Please update with your actual Supabase project URL.''
     \<in> set (errors (validateSupabaseConfig c))"
proof -
  assume h: "str_includes (url c) placeholder"
  have "url c \<noteq> []"
    using includes_nonempty [OF h] by (simp add: placeholder_def)
  with h show ?thesis
    by (simp add: validateSupabaseConfig_def Let_def push_error_def push_warning_def)
qed

subsection \<open>Configuration validation\<close>

text \<open>
  C7. A URL that contains the placeholder project name fails validation with the
  placeholder error, and module initialisation then throws instead of constructing the
  client. For a non-empty key, validity and the list of errors depend on the URL only:
  a key that fails the JWT-shape test or the length test adds a warning and nothing else.
\<close>

theorem config_placeholder_rejected_key_only_warns:
  "(str_includes (url c) placeholder \<longrightarrow>
      \<not> isValid (validateSupabaseConfig c) \<and>
      ''Using placeholder Supabase URL. Please update with your actual Supabase project URL.''
        \<in> set (errors (validateSupabaseConfig c)) \<and>
      supabase c =
        Inl (''Invalid Supabase configuration: '' @ join '', '' (errors (validateSupabaseConfig c)))) \<and>
   (anonKey c \<noteq> [] \<longrightarrow>
      isValid (validateSupabaseConfig c) =
        (url c \<noteq> [] \<and> matches_url (url c) \<and> \<not> str_includes (url c) placeholder) \<and>
      (\<forall>k. k \<noteq> [] \<longrightarrow>
         errors (validateSupabaseConfig (c\<lparr>anonKey := k\<rparr>)) = errors (validateSupabaseConfig c)) \<and>
      warnings (validateSupabaseConfig c) =
        (if \<not> matches_jwt (anonKey c)
         then [''Supabase anon key does not appear to be a valid JWT token format''] else []) @
        (if length (anonKey c) < 50 then [''Supabase anon key seems unusually short''] else []))"
proof (intro conjI impI)
  assume h: "str_includes (url c) placeholder"
  then show "\<not> isValid (validateSupabaseConfig c)"
    by (simp add: validate_isValid)
  then show "supabase c =
        Inl (''Invalid Supabase configuration: '' @ join '', '' (errors (validateSupabaseConfig c)))"
    by (simp add: supabase_def Let_def)
  from h show "''Using placeholder Supabase URL. Please update with your actual Supabase project URL.''
        \<in> set (errors (validateSupabaseConfig c))"
    by (rule validate_placeholder_error)
next
  assume k: "anonKey c \<noteq> []"
  then show "isValid (validateSupabaseConfig c) =
        (url c \<noteq> [] \<and> matches_url (url c) \<and> \<not> str_includes (url c) placeholder)"
    by (simp add: validate_isValid)
  from k show "\<forall>k. k \<noteq> [] \<longrightarrow>
         errors (validateSupabaseConfig (c\<lparr>anonKey := k\<rparr>)) = errors (validateSupabaseConfig c)"
    by (simp add: validate_errors_key_independent)
  from k show "warnings (validateSupabaseConfig c) =
        (if \<not> matches_jwt (anonKey c)
         then [''Supabase anon key does not appear to be a valid JWT token format''] else []) @
        (if length (anonKey c) < 50 then [''Supabase anon key seems unusually short''] else [])"
    by (simp add: validate_warnings)
qed

lemma placeholder_url_includes:
  "str_includes ''https://obbycwigtdzgnyapbdjl.supabase.co'' placeholder"
  by code_simp

lemma demo_url_ok:
  "matches_url ''https://demo.supabase.co'' \<and> \<not> str_includes ''https://demo.supabase.co'' placeholder"
  by code_simp

lemma short_key_not_jwt: "\<not> matches_jwt ''short''"
  by code_simp

theorem config_placeholder_rejected_key_only_warns_witness:
  "str_includes (url \<lparr>url = ''https://obbycwigtdzgnyapbdjl.supabase.co'', anonKey = ''short''\<rparr>) placeholder \<and>
   \<not> isValid (validateSupabaseConfig
       \<lparr>url = ''https://obbycwigtdzgnyapbdjl.supabase.co'', anonKey = ''short''\<rparr>) \<and>
   (\<exists>m. supabase \<lparr>url = ''https://obbycwigtdzgnyapbdjl.supabase.co'', anonKey = ''short''\<rparr> = Inl m) \<and>
   anonKey \<lparr>url = ''https://demo.supabase.co'', anonKey = ''short''\<rparr> \<noteq> [] \<and>
   isValid (validateSupabaseConfig \<lparr>url = ''https://demo.supabase.co'', anonKey = ''short''\<rparr>) \<and>
   warnings (validateSupabaseConfig \<lparr>url = ''https://demo.supabase.co'', anonKey = ''short''\<rparr>) =
     [''Supabase anon key does not appear to be a valid JWT token format'',
      ''Supabase anon key seems unusually short'']"
proof -
  let ?c0 = "\<lparr>url = ''https://obbycwigtdzgnyapbdjl.supabase.co'', anonKey = ''short''\<rparr>"
  let ?c1 = "\<lparr>url = ''https://demo.supabase.co'', anonKey = ''short''\<rparr>"
  have a: "str_includes (url ?c0) placeholder"
    using placeholder_url_includes by simp
  have b: "anonKey ?c1 \<noteq> []"
    by simp
  have u: "url ?c1 \<noteq> [] \<and> matches_url (url ?c1) \<and> \<not> str_includes (url ?c1) placeholder"
    using demo_url_ok by simp
  have j: "\<not> matches_jwt (anonKey ?c1)"
    using short_key_not_jwt by simp
  note t0 = config_placeholder_rejected_key_only_warns [of ?c0, THEN conjunct1, rule_format, OF a]
  note t1 = config_placeholder_rejected_key_only_warns [of ?c1, THEN conjunct2, rule_format, OF b]
  have c1: "\<not> isValid (validateSupabaseConfig ?c0)"
    using t0 by (rule conjunct1)
  have c2: "\<exists>m. supabase ?c0 = Inl m"
    using t0 by blast
  have c3: "isValid (validateSupabaseConfig ?c1)"
    using t1 u by blast
  have c4: "warnings (validateSupabaseConfig ?c1) =
     [''Supabase anon key does not appear to be a valid JWT token format'',
      ''Supabase anon key seems unusually short'']"
    using t1 j by simp
  show ?thesis
    using a b c1 c2 c3 c4 by blast
qed

subsection \<open>The auth-change handler\<close>

text \<open>
  C10. When the handler processes an event (the effect is mounted) whose session carries
  no user, the state afterwards has no profile, is not loading and shows no error, whatever
  error was displayed before; the handler makes no call to the service.
\<close>

theorem auth_change_without_user_resets:
  assumes "isMounted" and "user_of sess = None"
  shows "profile (onAuthStateChange isMounted event sess w) = None \<and>
         loading (onAuthStateChange isMounted event sess w) = False \<and>
         error (onAuthStateChange isMounted event sess w) = None \<and>
         user (onAuthStateChange isMounted event sess w) = None \<and>
         session (onAuthStateChange isMounted event sess w) = sess \<and>
         calls (onAuthStateChange isMounted event sess w) = calls w"
  using assms by (simp add: onAuthStateChange_def Let_def stop_loading_def)

theorem auth_change_without_user_resets_witness:
  "error (world0\<lparr>error := Some ''Access denied to your profile. Please contact support.''\<rparr>) \<noteq> None \<and>
   user_of None = None \<and>
   error (onAuthStateChange True SIGNED_OUT None
            (world0\<lparr>error := Some ''Access denied to your profile. Please contact support.''\<rparr>)) = None \<and>
   loading (onAuthStateChange True SIGNED_OUT None
            (world0\<lparr>error := Some ''Access denied to your profile. Please contact support.''\<rparr>)) = False \<and>
   profile (onAuthStateChange True SIGNED_OUT None
            (world0\<lparr>error := Some ''Access denied to your profile. Please contact support.''\<rparr>)) = None"
proof -
  have h: "user_of None = None"
    by (simp add: user_of_def)
  show ?thesis
    using h auth_change_without_user_resets [of True None SIGNED_OUT
        "world0\<lparr>error := Some ''Access denied to your profile. Please contact support.''\<rparr>", OF TrueI h]
    by simp
qed

subsection \<open>The guard on the signed-in user\<close>

lemma sendOtp_Inr: "user w = Some u \<Longrightarrow> \<exists>b. fst (sendOtp phone email type rnd w) = Inr b"
  by (auto simp: sendOtp_def split: prod.splits sum.splits)

lemma verifyOtp_Inr: "user w = Some u \<Longrightarrow> \<exists>b. fst (verifyOtp otp type w) = Inr b"
  by (auto simp: verifyOtp_def split: prod.splits sum.splits)

lemma sendOtp_caught:
  "user w = Some u \<Longrightarrow> fst (sendOtp_try u phone email type rnd w) = Inl t \<Longrightarrow>
   fst (sendOtp phone email type rnd w) = Inr False"
  by (auto simp: sendOtp_def split: prod.splits sum.splits)

lemma verifyOtp_caught:
  "user w = Some u \<Longrightarrow> fst (verifyOtp_try u otp type w) = Inl t \<Longrightarrow>
   fst (verifyOtp otp type w) = Inr False"
  by (auto simp: verifyOtp_def split: prod.splits sum.splits)

text \<open>
  C9. Without a signed-in user, \<^verbatim>\<open>updateProfile\<close>, \<^verbatim>\<open>sendOtp\<close> and \<^verbatim>\<open>verifyOtp\<close>
  throw \<^verbatim>\<open>'No user logged in'\<close> and leave the state, the service and the record of
  calls as they were. With a signed-in user, \<^verbatim>\<open>sendOtp\<close> and \<^verbatim>\<open>verifyOtp\<close> always
  return a boolean, and whatever is thrown inside their \<^verbatim>\<open>try\<close> block becomes the
  result \<^verbatim>\<open>false\<close>.
\<close>

theorem no_user_rejects_signed_in_never_rejects:
  "(user w = None \<longrightarrow>
      updateProfile updates w = (Inl (Error ''No user logged in''), w) \<and>
      sendOtp phone email type rnd w = (Inl (Error ''No user logged in''), w) \<and>
      verifyOtp otp type w = (Inl (Error ''No user logged in''), w)) \<and>
   (\<forall>u. user w = Some u \<longrightarrow>
      (\<exists>b. fst (sendOtp phone email type rnd w) = Inr b) \<and>
      (\<exists>b. fst (verifyOtp otp type w) = Inr b) \<and>
      (\<forall>t. fst (sendOtp_try u phone email type rnd w) = Inl t \<longrightarrow>
           fst (sendOtp phone email type rnd w) = Inr False) \<and>
      (\<forall>t. fst (verifyOtp_try u otp type w) = Inl t \<longrightarrow>
           fst (verifyOtp otp type w) = Inr False))"
proof (intro conjI impI allI)
  assume "user w = None"
  then show "updateProfile updates w = (Inl (Error ''No user logged in''), w)"
    and "sendOtp phone email type rnd w = (Inl (Error ''No user logged in''), w)"
    and "verifyOtp otp type w = (Inl (Error ''No user logged in''), w)"
    by (simp_all add: updateProfile_def sendOtp_def verifyOtp_def)
next
  fix u assume "user w = Some u"
  then show "\<exists>b. fst (sendOtp phone email type rnd w) = Inr b"
    by (rule sendOtp_Inr)
next
  fix u assume "user w = Some u"
  then show "\<exists>b. fst (verifyOtp otp type w) = Inr b"
    by (rule verifyOtp_Inr)
next
  fix u t assume "user w = Some u" "fst (sendOtp_try u phone email type rnd w) = Inl t"
  then show "fst (sendOtp phone email type rnd w) = Inr False"
    by (rule sendOtp_caught)
next
  fix u t assume "user w = Some u" "fst (verifyOtp_try u otp type w) = Inl t"
  then show "fst (verifyOtp otp type w) = Inr False"
    by (rule verifyOtp_caught)
qed

theorem no_user_rejects_signed_in_never_rejects_witness:
  "user world0 = None \<and>
   updateProfile (\<lambda>p. p\<lparr>p_full_name := Some ''Asha''\<rparr>) world0 = (Inl (Error ''No user logged in''), world0) \<and>
   sendOtp ''+919800000000'' [] Phone (1 / 2) world0 = (Inl (Error ''No user logged in''), world0) \<and>
   verifyOtp ''123456'' Phone world0 = (Inl (Error ''No user logged in''), world0) \<and>
   user (world0\<lparr>user := Some user0, script := [Fail denied]\<rparr>) = Some user0 \<and>
   fst (sendOtp_try user0 ''+919800000000'' [] Phone (1 / 2)
          (world0\<lparr>user := Some user0, script := [Fail denied]\<rparr>)) = Inl (Thrown denied) \<and>
   fst (sendOtp ''+919800000000'' [] Phone (1 / 2)
          (world0\<lparr>user := Some user0, script := [Fail denied]\<rparr>)) = Inr False \<and>
   fst (verifyOtp_try user0 ''123456'' Phone
          (world0\<lparr>user := Some user0, script := [Reject (Error ''Failed to fetch'')]\<rparr>)) =
     Inl (Error ''Failed to fetch'') \<and>
   fst (verifyOtp ''123456'' Phone
          (world0\<lparr>user := Some user0, script := [Reject (Error ''Failed to fetch'')]\<rparr>)) = Inr False"
proof -
  let ?w1 = "world0\<lparr>user := Some user0, script := [Fail denied]\<rparr>"
  let ?w2 = "world0\<lparr>user := Some user0, script := [Reject (Error ''Failed to fetch'')]\<rparr>"
  have n: "user world0 = None"
    by (simp add: world0_def)
  have u1: "user ?w1 = Some user0" and u2: "user ?w2 = Some user0"
    by simp_all
  have s: "fst (sendOtp_try user0 ''+919800000000'' [] Phone (1 / 2) ?w1) = Inl (Thrown denied)"
    by (simp add: sendOtp_try_def insert_otp_def request_def Let_def)
  have v: "fst (verifyOtp_try user0 ''123456'' Phone ?w2) = Inl (Error ''Failed to fetch'')"
    by (simp add: verifyOtp_try_def select_otp_def request_def)
  note a = no_user_rejects_signed_in_never_rejects
             [of world0 "\<lambda>p. p\<lparr>p_full_name := Some ''Asha''\<rparr>" "''+919800000000''" "[]" Phone "1 / 2"
                 "''123456''", THEN conjunct1, rule_format, OF n]
  note b = no_user_rejects_signed_in_never_rejects
             [of ?w1 id "''+919800000000''" "[]" Phone "1 / 2" "''123456''",
              THEN conjunct2, rule_format, OF u1]
  note c = no_user_rejects_signed_in_never_rejects
             [of ?w2 id "''+919800000000''" "[]" Phone "1 / 2" "''123456''",
              THEN conjunct2, rule_format, OF u2]
  have s': "fst (sendOtp ''+919800000000'' [] Phone (1 / 2) ?w1) = Inr False"
    using b s by blast
  have v': "fst (verifyOtp ''123456'' Phone ?w2) = Inr False"
    using c v by blast
  show ?thesis
    using n a u1 s s' v v' by simp
qed

subsection \<open>The welcome notification\<close>

lemma request_fields [simp]:
  "user (snd (request c w)) = user w"
  "session (snd (request c w)) = session w"
  "profile (snd (request c w)) = profile w"
  "loading (snd (request c w)) = loading w"
  "error (snd (request c w)) = error w"
  "console (snd (request c w)) = console w"
  "clock (snd (request c w)) = clock w"
  "service_session (snd (request c w)) = service_session w"
  "profiles (snd (request c w)) = profiles w"
  "otp_verifications (snd (request c w)) = otp_verifications w"
  "notifications (snd (request c w)) = notifications w"
  "next_id (snd (request c w)) = next_id w"
  "calls (snd (request c w)) = calls w @ [c]"
  by (simp_all add: request_def split: list.splits)

lemma sendWelcomeNotification_returns: "fst (sendWelcomeNotification userId w) = Inr ()"
  by (simp add: sendWelcomeNotification_def split: prod.splits response.splits option.splits)

lemma sendWelcomeNotification_keeps:
  "user (snd (sendWelcomeNotification userId w)) = user w \<and>
   session (snd (sendWelcomeNotification userId w)) = session w \<and>
   profile (snd (sendWelcomeNotification userId w)) = profile w \<and>
   loading (snd (sendWelcomeNotification userId w)) = loading w \<and>
   error (snd (sendWelcomeNotification userId w)) = error w \<and>
   service_session (snd (sendWelcomeNotification userId w)) = service_session w \<and>
   profiles (snd (sendWelcomeNotification userId w)) = profiles w \<and>
   otp_verifications (snd (sendWelcomeNotification userId w)) = otp_verifications w"
  by (cases "request GetSession w"; cases "request (InsertNotification userId) (snd (request GetSession w))")
     (auto simp: sendWelcomeNotification_def auth_getSession_def insert_notification_def
        log_def log_thrown_def
        split: prod.splits response.splits option.splits reply.splits
        dest!: arg_cong [where f = snd])


lemma sendWelcomeNotification_outcome:
  "(notifications (snd (sendWelcomeNotification userId w)) =
      notifications w @ [welcome_notification (next_id w) userId] \<and>
    console (snd (sendWelcomeNotification userId w)) = console w) \<or>
   (notifications (snd (sendWelcomeNotification userId w)) = notifications w \<and>
    (\<exists>line. console (snd (sendWelcomeNotification userId w)) = console w @ [line]))"
  by (cases "request GetSession w"; cases "request (InsertNotification userId) (snd (request GetSession w))")
     (auto simp: sendWelcomeNotification_def auth_getSession_def insert_notification_def
        log_def log_thrown_def
        split: prod.splits response.splits option.splits reply.splits
        dest!: arg_cong [where f = snd])

text \<open>
  C8. Once \<^verbatim>\<open>signUp\<close> has reached the notification step, it resolves, whatever the
  service answers to the calls of \<^verbatim>\<open>sendWelcomeNotification\<close>. The state of the
  provider, the session held by the service and the tables of profiles and one-time codes
  stay as the earlier steps left them. Either the notification row is added, or nothing
  is added and one line is written to the console.
\<close>

theorem welcome_notification_never_fails_sign_up:
  assumes "signUp_reconcile email password fullName w = (Inr (Some u), w1)"
  shows "fst (signUp email password fullName w) = Inr () \<and>
         snd (signUp email password fullName w) = snd (sendWelcomeNotification (u_id u) w1) \<and>
         user (snd (signUp email password fullName w)) = user w1 \<and>
         session (snd (signUp email password fullName w)) = session w1 \<and>
         profile (snd (signUp email password fullName w)) = profile w1 \<and>
         loading (snd (signUp email password fullName w)) = loading w1 \<and>
         error (snd (signUp email password fullName w)) = error w1 \<and>
         service_session (snd (signUp email password fullName w)) = service_session w1 \<and>
         profiles (snd (signUp email password fullName w)) = profiles w1 \<and>
         otp_verifications (snd (signUp email password fullName w)) = otp_verifications w1 \<and>
         ((notifications (snd (signUp email password fullName w)) =
             notifications w1 @ [welcome_notification (next_id w1) (u_id u)] \<and>
           console (snd (signUp email password fullName w)) = console w1) \<or>
          (notifications (snd (signUp email password fullName w)) = notifications w1 \<and>
           (\<exists>line. console (snd (signUp email password fullName w)) = console w1 @ [line])))"
proof -
  have r: "fst (sendWelcomeNotification (u_id u) w1) = Inr ()"
    by (rule sendWelcomeNotification_returns)
  have s: "signUp email password fullName w = (Inr (), snd (sendWelcomeNotification (u_id u) w1))"
    using assms r by (auto simp: signUp_def split: prod.splits sum.splits)
  show ?thesis
    using s sendWelcomeNotification_keeps [of "u_id u" w1]
      sendWelcomeNotification_outcome [of "u_id u" w1]
    by simp
qed

lemma signup_world_reconcile:
  "fst (signUp_reconcile ''asha@example.com'' ''secret'' ''Asha'' signup_world) =
     Inr (Some \<lparr>u_id = 1, u_email = Some ''asha@example.com''\<rparr>)"
  by (simp add: signup_world_def world0_def signUp_reconcile_def auth_signUp_def select_profile_def
        update_profile_def request_def maybeSingle_def new_profile_def Let_def)

lemma signup_world_profiles:
  "profiles (snd (signUp_reconcile ''asha@example.com'' ''secret'' ''Asha'' signup_world)) =
     [\<lparr>p_id = 2, p_user_id = 1, p_email = ''asha@example.com'', p_full_name = Some ''Asha'',
       p_created_at = 1000, p_updated_at = 2000\<rparr>]"
  by (simp add: signup_world_def world0_def signUp_reconcile_def auth_signUp_def select_profile_def
        update_profile_def request_def maybeSingle_def new_profile_def Let_def)

lemma signup_world_script:
  "script (snd (signUp_reconcile ''asha@example.com'' ''secret'' ''Asha'' signup_world)) = [Fail denied]"
  by (simp add: signup_world_def world0_def signUp_reconcile_def auth_signUp_def select_profile_def
        update_profile_def request_def maybeSingle_def new_profile_def Let_def)

theorem welcome_notification_never_fails_sign_up_witness:
  "fst (signUp_reconcile ''asha@example.com'' ''secret'' ''Asha'' signup_world) =
     Inr (Some \<lparr>u_id = 1, u_email = Some ''asha@example.com''\<rparr>) \<and>
   script (snd (signUp_reconcile ''asha@example.com'' ''secret'' ''Asha'' signup_world)) = [Fail denied] \<and>
   fst (signUp ''asha@example.com'' ''secret'' ''Asha'' signup_world) = Inr () \<and>
   profiles (snd (signUp ''asha@example.com'' ''secret'' ''Asha'' signup_world)) =
     [\<lparr>p_id = 2, p_user_id = 1, p_email = ''asha@example.com'', p_full_name = Some ''Asha'',
       p_created_at = 1000, p_updated_at = 2000\<rparr>]"
proof -
  let ?r = "signUp_reconcile ''asha@example.com'' ''secret'' ''Asha'' signup_world"
  have h: "?r = (Inr (Some \<lparr>u_id = 1, u_email = Some ''asha@example.com''\<rparr>), snd ?r)"
    using signup_world_reconcile by (simp add: prod_eq_iff)
  note t = welcome_notification_never_fails_sign_up [OF h]
  have a: "fst (signUp ''asha@example.com'' ''secret'' ''Asha'' signup_world) = Inr ()"
    using t by (rule conjunct1)
  have b: "profiles (snd (signUp ''asha@example.com'' ''secret'' ''Asha'' signup_world)) =
           profiles (snd ?r)"
    using t by blast
  show ?thesis
    using a b signup_world_reconcile signup_world_profiles signup_world_script
    by (simp only: simp_thms)
qed

subsection \<open>Profile fetch-or-create\<close>

lemma request_empty: "script w = [] \<Longrightarrow> request c w = (Honest, w\<lparr>calls := calls w @ [c]\<rparr>)"
  by (simp add: request_def)

lemma request_cons:
  "script w = r # rs \<Longrightarrow> request c w = (r, w\<lparr>script := rs, calls := calls w @ [c]\<rparr>)"
  by (simp add: request_def)

lemma fetch_found:
  assumes "filter (\<lambda>p. p_user_id p = userId) (profiles w) = [p]" and "script w = []"
  shows "fetchProfile userId w =
           (Inr (), w\<lparr>calls := calls w @ [SelectProfile userId], profile := Some p, loading := False\<rparr>)"
  using assms
  by (subst fetchProfile.simps)
     (simp add: fetch_query_def select_profile_def request_empty maybeSingle_def stop_loading_def)

text \<open>
  C5. For a user with one profile row and a service that answers honestly, two calls in
  a row each read the row and adopt it: the table is unchanged, both calls set the same
  profile, and the only calls to the service are the two reads (no insert).
\<close>

theorem fetch_existing_profile_idempotent:
  assumes "filter (\<lambda>p. p_user_id p = userId) (profiles w) = [p]" and "script w = []"
  shows "fst (fetchProfile userId w) = Inr () \<and>
         profile (snd (fetchProfile userId w)) = Some p \<and>
         profiles (snd (fetchProfile userId w)) = profiles w \<and>
         fst (fetchProfile userId (snd (fetchProfile userId w))) = Inr () \<and>
         profile (snd (fetchProfile userId (snd (fetchProfile userId w)))) = Some p \<and>
         profiles (snd (fetchProfile userId (snd (fetchProfile userId w)))) = profiles w \<and>
         calls (snd (fetchProfile userId (snd (fetchProfile userId w)))) =
           calls w @ [SelectProfile userId, SelectProfile userId]"
proof -
  let ?w1 = "w\<lparr>calls := calls w @ [SelectProfile userId], profile := Some p, loading := False\<rparr>"
  have one: "fetchProfile userId w = (Inr (), ?w1)"
    using assms by (rule fetch_found)
  have "filter (\<lambda>p. p_user_id p = userId) (profiles ?w1) = [p]" and "script ?w1 = []"
    using assms by simp_all
  then have two: "fetchProfile userId ?w1 =
      (Inr (), ?w1\<lparr>calls := calls ?w1 @ [SelectProfile userId], profile := Some p, loading := False\<rparr>)"
    by (rule fetch_found)
  show ?thesis
    by (simp add: one two)
qed

lemma fetch_created:
  assumes "filter (\<lambda>p. p_user_id p = userId) (profiles w) = []"
    and "service_session w = Some (Session (Some u))" and "u_email u = Some em"
    and "script w = []"
  shows "fetchProfile userId w =
           (Inr (), w\<lparr>calls := calls w @ [SelectProfile userId, GetUser, InsertProfile userId em],
                      profiles := profiles w @ [new_profile (next_id w) userId em (clock w)],
                      next_id := next_id w + 1,
                      profile := Some (new_profile (next_id w) userId em (clock w)),
                      loading := False\<rparr>)"
  using assms
  by (subst fetchProfile.simps, subst createProfile.simps)
     (simp add: fetch_query_def select_profile_def request_empty maybeSingle_def stop_loading_def
        create_insert_def auth_getUser_def insert_profile_def user_of_def Let_def)

lemma fetch_created_refetch:
  assumes "filter (\<lambda>p. p_user_id p = userId) (profiles w) = []"
    and "service_session w = Some (Session (Some u))" and "u_email u = Some em"
    and "script w = [Honest, Honest, NoRow]"
  shows "fetchProfile userId w =
           (Inr (), w\<lparr>calls := calls w @ [SelectProfile userId, GetUser, InsertProfile userId em,
                                          SelectProfile userId],
                      script := [],
                      console := console w @ [''AuthProvider: Profile creation succeeded but no data returned''],
                      profiles := profiles w @ [new_profile (next_id w) userId em (clock w)],
                      next_id := next_id w + 1,
                      profile := Some (new_profile (next_id w) userId em (clock w)),
                      loading := False\<rparr>)"
  using assms
  by (subst fetchProfile.simps, subst createProfile.simps, subst fetchProfile.simps)
     (simp add: fetch_query_def select_profile_def request_empty request_cons maybeSingle_def
        stop_loading_def log_def new_profile_def
        create_insert_def auth_getUser_def insert_profile_def user_of_def Let_def)


text \<open>
  C4. For a user without a profile row, signed in at a service that answers honestly,
  fetch-or-create appends one row carrying the user's identifier and e-mail address; it is
  then the only row of that user, and it becomes the current profile. When the insert
  succeeds without returning the row, the profile is read once more and the row found
  is adopted.
\<close>

theorem fetch_or_create_for_new_user:
  assumes "filter (\<lambda>p. p_user_id p = userId) (profiles w) = []"
    and "service_session w = Some (Session (Some u))" and "u_id u = userId" and "u_email u = Some em"
    and "script w = [] \<or> script w = [Honest, Honest, NoRow]"
  shows "fst (fetchProfile userId w) = Inr () \<and>
         profiles (snd (fetchProfile userId w)) =
           profiles w @ [new_profile (next_id w) userId em (clock w)] \<and>
         filter (\<lambda>p. p_user_id p = userId) (profiles (snd (fetchProfile userId w))) =
           [new_profile (next_id w) userId em (clock w)] \<and>
         p_user_id (new_profile (next_id w) userId em (clock w)) = u_id u \<and>
         p_email (new_profile (next_id w) userId em (clock w)) = em \<and>
         profile (snd (fetchProfile userId w)) = Some (new_profile (next_id w) userId em (clock w)) \<and>
         loading (snd (fetchProfile userId w)) = False \<and>
         calls (snd (fetchProfile userId w)) =
           calls w @ [SelectProfile userId, GetUser, InsertProfile userId em] @
             (if script w = [] then [] else [SelectProfile userId])"
proof -
  have row: "p_user_id (new_profile (next_id w) userId em (clock w)) = userId"
            "p_email (new_profile (next_id w) userId em (clock w)) = em"
    by (simp_all add: new_profile_def)
  from assms(5) show ?thesis
  proof
    assume s: "script w = []"
    show ?thesis
      using assms(1,3) row s by (simp add: fetch_created [OF assms(1,2,4) s])
  next
    assume s: "script w = [Honest, Honest, NoRow]"
    show ?thesis
      using assms(1,3) row s by (simp add: fetch_created_refetch [OF assms(1,2,4) s])
  qed
qed

theorem fetch_or_create_for_new_user_witness:
  "filter (\<lambda>p. p_user_id p = 7) (profiles (signed_in_world\<lparr>script := [Honest, Honest, NoRow]\<rparr>)) = [] \<and>
   service_session (signed_in_world\<lparr>script := [Honest, Honest, NoRow]\<rparr>) = Some (Session (Some user0)) \<and>
   u_id user0 = 7 \<and> u_email user0 = Some ''asha@example.com'' \<and>
   fst (fetchProfile 7 (signed_in_world\<lparr>script := [Honest, Honest, NoRow]\<rparr>)) = Inr () \<and>
   profiles (snd (fetchProfile 7 (signed_in_world\<lparr>script := [Honest, Honest, NoRow]\<rparr>))) =
     [\<lparr>p_id = 1, p_user_id = 7, p_email = ''asha@example.com'', p_full_name = None,
       p_created_at = 1000, p_updated_at = 1000\<rparr>] \<and>
   calls (snd (fetchProfile 7 (signed_in_world\<lparr>script := [Honest, Honest, NoRow]\<rparr>))) =
     [SelectProfile 7, GetUser, InsertProfile 7 ''asha@example.com'', SelectProfile 7]"
proof -
  let ?w = "signed_in_world\<lparr>script := [Honest, Honest, NoRow]\<rparr>"
  have a: "filter (\<lambda>p. p_user_id p = 7) (profiles ?w) = []"
    by (simp add: signed_in_world_def world0_def)
  have b: "service_session ?w = Some (Session (Some user0))"
    by (simp add: signed_in_world_def)
  have c: "u_id user0 = 7" and d: "u_email user0 = Some ''asha@example.com''"
    by (simp_all add: user0_def)
  have e: "script ?w = [] \<or> script ?w = [Honest, Honest, NoRow]"
    by simp
  have f: "profiles ?w = []" "next_id ?w = 1" "clock ?w = 1000" "calls ?w = []" "script ?w \<noteq> []"
    by (simp_all add: signed_in_world_def world0_def)
  show ?thesis
    using a b c d fetch_or_create_for_new_user [OF a b c d e]
    by (simp add: f new_profile_def)
qed

theorem fetch_existing_profile_idempotent_witness:
  "filter (\<lambda>p. p_user_id p = 7)
     (profiles (signed_in_world\<lparr>profiles := [new_profile 3 7 ''asha@example.com'' 500]\<rparr>)) =
     [new_profile 3 7 ''asha@example.com'' 500] \<and>
   script (signed_in_world\<lparr>profiles := [new_profile 3 7 ''asha@example.com'' 500]\<rparr>) = [] \<and>
   profiles (snd (fetchProfile 7 (snd (fetchProfile 7
     (signed_in_world\<lparr>profiles := [new_profile 3 7 ''asha@example.com'' 500]\<rparr>))))) =
     [new_profile 3 7 ''asha@example.com'' 500] \<and>
   profile (snd (fetchProfile 7 (snd (fetchProfile 7
     (signed_in_world\<lparr>profiles := [new_profile 3 7 ''asha@example.com'' 500]\<rparr>))))) =
     Some (new_profile 3 7 ''asha@example.com'' 500) \<and>
   calls (snd (fetchProfile 7 (snd (fetchProfile 7
     (signed_in_world\<lparr>profiles := [new_profile 3 7 ''asha@example.com'' 500]\<rparr>))))) =
     [SelectProfile 7, SelectProfile 7]"
proof -
  let ?w = "signed_in_world\<lparr>profiles := [new_profile 3 7 ''asha@example.com'' 500]\<rparr>"
  have a: "filter (\<lambda>p. p_user_id p = 7) (profiles ?w) = [new_profile 3 7 ''asha@example.com'' 500]"
    by (simp add: new_profile_def)
  have b: "script ?w = []"
    by (simp add: signed_in_world_def world0_def)
  have f: "profiles ?w = [new_profile 3 7 ''asha@example.com'' 500]" "calls ?w = []"
    by (simp_all add: signed_in_world_def world0_def)
  show ?thesis
    using a b fetch_existing_profile_idempotent [OF a b]
    by (simp add: f)
qed

subsection \<open>Session refresh with retry\<close>

lemma request_eq:
  "request c w = (next_reply w, w\<lparr>script := tl (script w), calls := calls w @ [c]\<rparr>)"
  by (cases "script w") (simp_all add: request_def next_reply_def)

lemma fetch_query_error: "error (snd (fetch_query userId w)) = error w"
  by (simp add: fetch_query_def select_profile_def probe_profiles_def request_eq log_def
        split: reply.splits response.splits option.splits list.splits prod.splits)

lemma create_insert_error: "error (snd (create_insert userId w)) = error w"
  by (simp add: create_insert_def auth_getUser_def insert_profile_def request_eq log_def Let_def
        split: reply.splits response.splits option.splits list.splits prod.splits)

lemma fetch_create_error:
  "error (snd (fetchProfile userId w)) = error w"
  "error (snd (createProfile userId' w')) = error w'"
proof (induction userId w and userId' w' rule: fetchProfile_createProfile.induct)
  case (1 userId w)
  show ?case
    using 1 fetch_query_error [of userId w]
    by (subst fetchProfile.simps)
       (auto simp: stop_loading_def log_thrown_def log_def split: prod.splits sum.splits option.splits)
next
  case (2 userId w)
  show ?case
    using 2 create_insert_error [of userId w]
    by (subst createProfile.simps)
       (auto simp: stop_loading_def log_thrown_def log_def split: prod.splits sum.splits option.splits)
qed

lemma fetchProfile_loading: "loading (snd (fetchProfile userId w)) = False"
  by (subst fetchProfile.simps)
     (auto simp: stop_loading_def split: prod.splits sum.splits option.splits)


lemma getSession_Fail:
  "script w = Fail e # rest \<Longrightarrow>
   auth_getSession w = (Resolved None (Some e), w\<lparr>script := rest, calls := calls w @ [GetSession]\<rparr>)"
  by (simp add: auth_getSession_def request_def)

lemma getSession_Reject:
  "script w = Reject t # rest \<Longrightarrow>
   auth_getSession w = (Rejected t, w\<lparr>script := rest, calls := calls w @ [GetSession]\<rparr>)"
  by (simp add: auth_getSession_def request_def)

lemma getSession_error: "error (snd (auth_getSession w)) = error w"
  by (simp add: auth_getSession_def request_eq split: reply.splits)

lemma refresh_catch_early:
  "attempt < 3 \<Longrightarrow>
   refresh_catch attempt t w =
     (Some (Retry (attempt + 1) (attempt * 2000)),
      log_thrown ''AuthProvider: Error refreshing auth state:'' t w)"
  by (simp add: refresh_catch_def maxRetries_def Let_def)

lemma refresh_Fail:
  assumes "script w = Fail e # rest"
  shows "refreshAuthState attempt w =
     (if attempt < 3 \<and> network_signature (message e)
      then (Some (Retry (attempt + 1) (attempt * 2000)),
            w\<lparr>loading := True, error := None, script := rest, calls := calls w @ [GetSession]\<rparr>)
      else (None,
            w\<lparr>loading := False, error := None, script := rest, calls := calls w @ [GetSession],
              console := console w @
                [''AuthProvider: Session fetch failed, proceeding with current state '' @ message e],
              session := None, user := None, profile := None\<rparr>))"
proof -
  have s: "script (w\<lparr>loading := True, error := None\<rparr>) = Fail e # rest"
    using assms by simp
  show ?thesis
    by (simp add: refreshAuthState_def getSession_Fail [OF s] maxRetries_def network_signature_def
          Let_def user_of_def stop_loading_def log_def)
qed

lemma refresh_Reject:
  assumes "script w = Reject t # rest"
  shows "refreshAuthState attempt w =
     refresh_catch attempt t
       (w\<lparr>loading := True, error := None, script := rest, calls := calls w @ [GetSession]\<rparr>)"
proof -
  have s: "script (w\<lparr>loading := True, error := None\<rparr>) = Reject t # rest"
    using assms by simp
  show ?thesis
    by (simp add: refreshAuthState_def getSession_Reject [OF s])
qed

lemma refresh_catch_none:
  "fst (refresh_catch attempt t w) = None \<Longrightarrow>
   loading (snd (refresh_catch attempt t w)) = False \<and>
   (\<forall>f. error w = None \<longrightarrow> error (snd (refresh_catch attempt t w)) = Some f \<longrightarrow> \<not> contains_Network_or_connection f)"
  by (auto simp: refresh_catch_def maxRetries_def Let_def stop_loading_def contains_Network_or_connection_def
        log_thrown_def log_def split: if_splits)

lemma refresh_none:
  assumes "fst (refreshAuthState attempt w) = None"
  shows "loading (snd (refreshAuthState attempt w)) = False \<and>
         (\<forall>f. error (snd (refreshAuthState attempt w)) = Some f \<longrightarrow> \<not> contains_Network_or_connection f)"
proof -
  let ?w0 = "w\<lparr>loading := True, error := None\<rparr>"
  obtain resp w1 where g: "auth_getSession ?w0 = (resp, w1)"
    by (cases "auth_getSession ?w0")
  have e1: "error w1 = None"
    using getSession_error [of ?w0] g by simp
  show ?thesis
  proof (cases resp)
    case (Rejected t)
    then have r: "refreshAuthState attempt w = refresh_catch attempt t w1"
      using g by (simp add: refreshAuthState_def)
    show ?thesis
      using assms e1 refresh_catch_none [of attempt t w1] by (simp add: r)
  next
    case (Resolved cs se)
    define w2 where "w2 = (case se of None \<Rightarrow> w1
        | Some e \<Rightarrow> log (''AuthProvider: Session fetch failed, proceeding with current state '' @
                                    message e) w1)"
    have e2: "error w2 = None"
      using e1 by (simp add: w2_def log_def split: option.splits)
    define w3 where "w3 = w2\<lparr>session := cs, user := user_of cs\<rparr>"
    have e3: "error w3 = None"
      using e2 by (simp add: w3_def)
    have r: "refreshAuthState attempt w =
        (case user_of cs of
           Some u \<Rightarrow>
             (case fetchProfile (u_id u) w3 of
                (Inl t, w4) \<Rightarrow> refresh_catch attempt t w4
              | (Inr _, w4) \<Rightarrow> (None, w4))
         | None \<Rightarrow> (None, stop_loading (w3\<lparr>profile := None\<rparr>)))"
      using g Resolved assms
      by (auto simp: refreshAuthState_def maxRetries_def w2_def w3_def Let_def
            split: option.splits if_splits)
    show ?thesis
    proof (cases "user_of cs")
      case None
      then show ?thesis
        using r e3 by (simp add: stop_loading_def)
    next
      case (Some u)
      obtain res w4 where f: "fetchProfile (u_id u) w3 = (res, w4)"
        by (cases "fetchProfile (u_id u) w3")
      have e4: "error w4 = None" and l4: "loading w4 = False"
        using fetch_create_error(1) [of "u_id u" w3] fetchProfile_loading [of "u_id u" w3] f e3
        by simp_all
      show ?thesis
      proof (cases res)
        case (Inl t)
        then have r': "refreshAuthState attempt w = refresh_catch attempt t w4"
          using r Some f by simp
        show ?thesis
          using assms e4 refresh_catch_none [of attempt t w4] by (simp add: r')
      next
        case (Inr x)
        then show ?thesis
          using r Some f e4 l4 by simp
      qed
    qed
  qed
qed

lemma refresh_third: "fst (refreshAuthState 3 w) = None"
proof (cases "fst (refreshAuthState 3 w)")
  case (Some tm)
  obtain a d where "tm = Retry a d"
    by (cases tm)
  then have "refreshAuthState 3 w = (Some (Retry a d), snd (refreshAuthState 3 w))"
    using Some by (simp add: prod_eq_iff)
  then show ?thesis
    using refreshAuthState_timer by blast
qed simp

lemma run_refresh_from:
  assumes "attempt \<le> 3"
  shows "length (fst (run_refresh attempt w)) \<le> 4 - attempt \<and>
         loading (snd (run_refresh attempt w)) = False \<and>
         (\<forall>f. error (snd (run_refresh attempt w)) = Some f \<longrightarrow> \<not> contains_Network_or_connection f)"
  using assms
proof (induction attempt w rule: run_refresh.induct)
  case (1 attempt w)
  show ?case
  proof (cases "fst (refreshAuthState attempt w)")
    case None
    then have "run_refresh attempt w = ([attempt], snd (refreshAuthState attempt w))"
      by (subst run_refresh.simps) (auto split: prod.splits)
    then show ?thesis
      using refresh_none [OF None] 1(2) by simp
  next
    case (Some tm)
    obtain a d where tm: "tm = Retry a d"
      by (cases tm)
    obtain w1 where r: "refreshAuthState attempt w = (Some (Retry a d), w1)"
      using Some tm by (cases "refreshAuthState attempt w") simp
    have b: "attempt < 3 \<and> a = attempt + 1"
      using refreshAuthState_timer [OF r] .
    have ih: "length (fst (run_refresh a (w1\<lparr>clock := clock w1 + d\<rparr>))) \<le> 4 - a \<and>
         loading (snd (run_refresh a (w1\<lparr>clock := clock w1 + d\<rparr>))) = False \<and>
         (\<forall>f. error (snd (run_refresh a (w1\<lparr>clock := clock w1 + d\<rparr>))) = Some f \<longrightarrow>
              \<not> contains_Network_or_connection f)"
      using 1(1) [OF r [symmetric] refl refl] b by simp
    have "run_refresh attempt w =
            (attempt # fst (run_refresh a (w1\<lparr>clock := clock w1 + d\<rparr>)),
             snd (run_refresh a (w1\<lparr>clock := clock w1 + d\<rparr>)))"
      by (subst run_refresh.simps) (simp add: r split: prod.splits)
    then show ?thesis
      using ih b by auto
  qed
qed

lemma refresh_retry_step:
  assumes "script w = r # rest" and "network_failure r" and "attempt < 3"
  shows "\<exists>w'. refreshAuthState attempt w = (Some (Retry (attempt + 1) (attempt * 2000)), w') \<and>
              script w' = rest \<and> calls w' = calls w @ [GetSession]"
proof (cases r)
  case (Fail e)
  then show ?thesis
    using assms by (simp add: refresh_Fail network_failure_def)
next
  case (Reject t)
  then show ?thesis
    using assms by (simp add: refresh_Reject refresh_catch_early log_thrown_def log_def)
qed (use assms in \<open>simp_all add: network_failure_def\<close>)

lemma refresh_last_step:
  assumes "script w = r # rest" and "network_failure r"
  shows "\<exists>w'. refreshAuthState 3 w = (None, w') \<and> loading w' = False \<and>
              calls w' = calls w @ [GetSession] \<and>
              error w' = (case r of
                            Reject t \<Rightarrow> if contains_Network_or_connection (formatNetworkError t) then None
                                        else Some (formatNetworkError t)
                          | _ \<Rightarrow> None)"
proof (cases r)
  case (Fail e)
  then show ?thesis
    using assms by (simp add: refresh_Fail)
next
  case (Reject t)
  then show ?thesis
    using assms
    by (simp add: refresh_Reject refresh_catch_def maxRetries_def Let_def contains_Network_or_connection_def
          stop_loading_def log_thrown_def log_def)
qed (use assms in \<open>simp_all add: network_failure_def\<close>)

text \<open>
  A chain whose first three calls to \<^verbatim>\<open>getSession\<close> fail with a network-shaped
  error runs attempts 1, 2 and 3 and nothing more; afterwards loading is false, and an
  error is displayed exactly when the third failure was thrown and its formatted text
  passes the test of line 145. Attempt 3 never sets a timer, and every chain runs at
  most three attempts and ends with loading false.
\<close>

lemma three_failures_chain:
  assumes "script w = r1 # r2 # r3 # rest"
    and "network_failure r1" and "network_failure r2" and "network_failure r3"
  shows "fst (run_refresh 1 w) = [1, 2, 3] \<and>
         loading (snd (run_refresh 1 w)) = False \<and>
         calls (snd (run_refresh 1 w)) = calls w @ [GetSession, GetSession, GetSession] \<and>
         error (snd (run_refresh 1 w)) =
           (case r3 of
              Reject t \<Rightarrow> if contains_Network_or_connection (formatNetworkError t) then None
                          else Some (formatNetworkError t)
            | _ \<Rightarrow> None) \<and>
         (\<forall>f. error (snd (run_refresh 1 w)) = Some f \<longrightarrow> \<not> contains_Network_or_connection f) \<and>
         (\<forall>v. fst (refreshAuthState 3 v) = None) \<and>
         (\<forall>v. length (fst (run_refresh 1 v)) \<le> 3 \<and> loading (snd (run_refresh 1 v)) = False \<and>
              (\<forall>f. error (snd (run_refresh 1 v)) = Some f \<longrightarrow> \<not> contains_Network_or_connection f))"
proof -
  obtain w1 where a1: "refreshAuthState 1 w = (Some (Retry 2 2000), w1)"
    and s1: "script w1 = r2 # r3 # rest" and c1: "calls w1 = calls w @ [GetSession]"
    using refresh_retry_step [OF assms(1,2), of 1] by auto
  let ?v1 = "w1\<lparr>clock := clock w1 + 2000\<rparr>"
  have s1': "script ?v1 = r2 # r3 # rest"
    using s1 by simp
  obtain w2 where a2: "refreshAuthState 2 ?v1 = (Some (Retry 3 4000), w2)"
    and s2: "script w2 = r3 # rest" and c2: "calls w2 = calls ?v1 @ [GetSession]"
    using refresh_retry_step [OF s1' assms(3), of 2] by auto
  let ?v2 = "w2\<lparr>clock := clock w2 + 4000\<rparr>"
  have s2': "script ?v2 = r3 # rest"
    using s2 by simp
  obtain w3 where a3: "refreshAuthState 3 ?v2 = (None, w3)" and l3: "loading w3 = False"
    and c3: "calls w3 = calls ?v2 @ [GetSession]"
    and e3: "error w3 = (case r3 of
                            Reject t \<Rightarrow> if contains_Network_or_connection (formatNetworkError t) then None
                                        else Some (formatNetworkError t)
                          | _ \<Rightarrow> None)"
    using refresh_last_step [OF s2' assms(4)] by auto
  have r3: "run_refresh 3 ?v2 = ([3], w3)"
    by (subst run_refresh.simps) (use a3 in simp)
  have r2: "run_refresh 2 ?v1 = ([2, 3], w3)"
    by (subst run_refresh.simps) (use a2 r3 in simp)
  have r1: "run_refresh 1 w = ([1, 2, 3], w3)"
    by (subst run_refresh.simps) (use a1 r2 in simp)
  have n: "\<forall>f. error w3 = Some f \<longrightarrow> \<not> contains_Network_or_connection f"
    using e3 by (auto split: reply.splits if_splits)
  have g: "\<forall>v. length (fst (run_refresh 1 v)) \<le> 3 \<and> loading (snd (run_refresh 1 v)) = False \<and>
              (\<forall>f. error (snd (run_refresh 1 v)) = Some f \<longrightarrow> \<not> contains_Network_or_connection f)"
    using run_refresh_from [of 1] by simp
  show ?thesis
    using r1 l3 c1 c2 c3 e3 n g refresh_third by simp
qed


lemma sample_failures:
  "network_failure (Reject closed_error)"
  "network_signature (message_of closed_error)"
  "formatNetworkError closed_error =
     ''Connection was closed unexpectedly. This might be due to network issues or Supabase service problems.''"
  "\<not> contains_Network_or_connection (formatNetworkError closed_error)"
  "str_includes
     ''Connection was closed unexpectedly. This might be due to network issues or Supabase service problems.''
     ''network issues''"
  "network_failure (Reject (Error ''Failed to fetch''))"
  "network_signature ''Failed to fetch''"
  "formatNetworkError (Error ''Failed to fetch'') = ''Failed to fetch''"
  "\<not> contains_Network_or_connection (formatNetworkError (Error ''Failed to fetch''))"
  by code_simp+

text \<open>
  C6. The chain stops after attempt 3 with loading false, but the third part of the
  claim does not hold of the code. After three rejections of \<^verbatim>\<open>getSession\<close> with
  \<^verbatim>\<open>'net::ERR_CONNECTION_CLOSED'\<close>, a text that the code's own list of network
  signatures (line 110) matches, the error displayed is the formatted text
  \<^verbatim>\<open>'Connection was closed unexpectedly. This might be due to network issues ...'\<close>:
  the test of line 145 looks for \<^verbatim>\<open>'Network'\<close> and \<^verbatim>\<open>'connection'\<close> with these
  capitals only. Three rejections with \<^verbatim>\<open>'Failed to fetch'\<close> display that text
  likewise.
\<close>

theorem connection_closed_error_is_displayed:
  "network_signature (message_of closed_error) \<and>
   fst (run_refresh 1 (world0\<lparr>script := [Reject closed_error, Reject closed_error,
                                          Reject closed_error]\<rparr>)) = [1, 2, 3] \<and>
   loading (snd (run_refresh 1 (world0\<lparr>script := [Reject closed_error, Reject closed_error,
                                          Reject closed_error]\<rparr>))) = False \<and>
   error (snd (run_refresh 1 (world0\<lparr>script := [Reject closed_error, Reject closed_error,
                                          Reject closed_error]\<rparr>))) =
     Some ''Connection was closed unexpectedly. This might be due to network issues or Supabase service problems.'' \<and>
   str_includes
     ''Connection was closed unexpectedly. This might be due to network issues or Supabase service problems.''
     ''network issues'' \<and>
   network_signature ''Failed to fetch'' \<and>
   error (snd (run_refresh 1 (world0\<lparr>script := [Reject (Error ''Failed to fetch''),
                                          Reject (Error ''Failed to fetch''),
                                          Reject (Error ''Failed to fetch'')]\<rparr>))) =
     Some ''Failed to fetch''"
proof -
  let ?v = "world0\<lparr>script := [Reject closed_error, Reject closed_error, Reject closed_error]\<rparr>"
  let ?f = "world0\<lparr>script := [Reject (Error ''Failed to fetch''), Reject (Error ''Failed to fetch''),
                               Reject (Error ''Failed to fetch'')]\<rparr>"
  have s: "script ?v = [Reject closed_error, Reject closed_error, Reject closed_error]"
    by simp
  have s': "script ?f = [Reject (Error ''Failed to fetch''), Reject (Error ''Failed to fetch''),
                         Reject (Error ''Failed to fetch'')]"
    by simp
  note t = three_failures_chain [OF s sample_failures(1) sample_failures(1) sample_failures(1)]
  note t' = three_failures_chain [OF s' sample_failures(6) sample_failures(6) sample_failures(6)]
  have a: "fst (run_refresh 1 ?v) = [1, 2, 3]"
    using t by (rule conjunct1)
  have b: "loading (snd (run_refresh 1 ?v)) = False"
    using t by blast
  have e: "error (snd (run_refresh 1 ?v)) =
           (case Reject closed_error of
              Reject t \<Rightarrow> if contains_Network_or_connection (formatNetworkError t) then None
                          else Some (formatNetworkError t)
            | _ \<Rightarrow> None)"
    using t by blast
  have "error (snd (run_refresh 1 ?v)) = Some (formatNetworkError closed_error)"
    using e sample_failures(4) by simp
  then have c: "error (snd (run_refresh 1 ?v)) =
     Some ''Connection was closed unexpectedly. This might be due to network issues or Supabase service problems.''"
    by (simp only: sample_failures(3))
  have e': "error (snd (run_refresh 1 ?f)) =
           (case Reject (Error ''Failed to fetch'') of
              Reject t \<Rightarrow> if contains_Network_or_connection (formatNetworkError t) then None
                          else Some (formatNetworkError t)
            | _ \<Rightarrow> None)"
    using t' by blast
  have "error (snd (run_refresh 1 ?f)) = Some (formatNetworkError (Error ''Failed to fetch''))"
    using e' sample_failures(9) by simp
  then have c': "error (snd (run_refresh 1 ?f)) = Some ''Failed to fetch''"
    by (simp only: sample_failures(8))
  show ?thesis
    using sample_failures(2) a b c sample_failures(5) sample_failures(7) c'
    by (simp only: simp_thms)
qed

lemma fetch_throws_service_error:
  assumes "script w = Fail e # rest"
    and "\<not> str_includes (message e) ''406''" and "\<not> str_includes (message e) ''Not Acceptable''"
    and "code e \<noteq> ''PGRST116''"
  shows "fst (fetchProfile userId w) = Inl (Thrown e)"
  using assms
  by (subst fetchProfile.simps)
     (simp add: fetch_query_def select_profile_def request_def)

text \<open>
  C2, as amended. A session error returned by \<^verbatim>\<open>getSession\<close> sets the retry timer
  exactly when the attempt is below 3 and its text matches one of the four signatures;
  otherwise no timer is set, the refresh goes on with the returned session and no error
  is displayed. A failure thrown by \<^verbatim>\<open>getSession\<close> or by the profile fetch sets the
  timer exactly when the attempt is below 3, whatever its text; on attempt 3 loading
  stops and the formatted text is displayed unless it contains \<^verbatim>\<open>'Network'\<close> or
  \<^verbatim>\<open>'connection'\<close>.
\<close>

theorem retry_decision:
  "(script w = Fail e # rest \<longrightarrow>
      fst (refreshAuthState attempt w) =
        (if attempt < 3 \<and> network_signature (message e)
         then Some (Retry (attempt + 1) (attempt * 2000)) else None) \<and>
      (\<not> (attempt < 3 \<and> network_signature (message e)) \<longrightarrow>
         error (snd (refreshAuthState attempt w)) = None \<and>
         loading (snd (refreshAuthState attempt w)) = False \<and>
         user (snd (refreshAuthState attempt w)) = None)) \<and>
   (script w = Reject t # rest \<longrightarrow>
      fst (refreshAuthState attempt w) =
        (if attempt < 3 then Some (Retry (attempt + 1) (attempt * 2000)) else None) \<and>
      (\<not> attempt < 3 \<longrightarrow>
         loading (snd (refreshAuthState attempt w)) = False \<and>
         error (snd (refreshAuthState attempt w)) =
           (if contains_Network_or_connection (formatNetworkError t) then None else Some (formatNetworkError t)))) \<and>
   (\<forall>cs w1 u w2.
      auth_getSession (w\<lparr>loading := True, error := None\<rparr>) = (Resolved cs None, w1) \<and>
      user_of cs = Some u \<and>
      fetchProfile (u_id u) (w1\<lparr>session := cs, user := Some u\<rparr>) = (Inl t, w2) \<longrightarrow>
      fst (refreshAuthState attempt w) =
        (if attempt < 3 then Some (Retry (attempt + 1) (attempt * 2000)) else None) \<and>
      (\<not> attempt < 3 \<longrightarrow>
         loading (snd (refreshAuthState attempt w)) = False \<and>
         error (snd (refreshAuthState attempt w)) =
           (if contains_Network_or_connection (formatNetworkError t) then None else Some (formatNetworkError t))))"
proof (intro conjI impI allI)
  assume s: "script w = Fail e # rest"
  show "fst (refreshAuthState attempt w) =
        (if attempt < 3 \<and> network_signature (message e)
         then Some (Retry (attempt + 1) (attempt * 2000)) else None)"
    by (simp add: refresh_Fail [OF s])
  assume "\<not> (attempt < 3 \<and> network_signature (message e))"
  then show "error (snd (refreshAuthState attempt w)) = None"
    and "loading (snd (refreshAuthState attempt w)) = False"
    and "user (snd (refreshAuthState attempt w)) = None"
    by (auto simp: refresh_Fail [OF s])
next
  assume s: "script w = Reject t # rest"
  show "fst (refreshAuthState attempt w) =
        (if attempt < 3 then Some (Retry (attempt + 1) (attempt * 2000)) else None)"
    by (simp add: refresh_Reject [OF s] refresh_catch_def maxRetries_def Let_def)
  assume "\<not> attempt < 3"
  then show "loading (snd (refreshAuthState attempt w)) = False"
    and "error (snd (refreshAuthState attempt w)) =
           (if contains_Network_or_connection (formatNetworkError t) then None else Some (formatNetworkError t))"
    by (simp_all add: refresh_Reject [OF s] refresh_catch_def maxRetries_def Let_def
          contains_Network_or_connection_def stop_loading_def log_thrown_def log_def)
next
  fix cs w1 u w2
  assume h: "auth_getSession (w\<lparr>loading := True, error := None\<rparr>) = (Resolved cs None, w1) \<and>
      user_of cs = Some u \<and>
      fetchProfile (u_id u) (w1\<lparr>session := cs, user := Some u\<rparr>) = (Inl t, w2)"
  then have r: "refreshAuthState attempt w = refresh_catch attempt t w2"
    by (simp add: refreshAuthState_def Let_def)
  have "error w1 = None"
    using getSession_error [of "w\<lparr>loading := True, error := None\<rparr>"] h by simp
  then have e2: "error w2 = None"
    using fetch_create_error(1) [of "u_id u" "w1\<lparr>session := cs, user := Some u\<rparr>"] h by simp
  show "fst (refreshAuthState attempt w) =
        (if attempt < 3 then Some (Retry (attempt + 1) (attempt * 2000)) else None)"
    by (simp add: r refresh_catch_def maxRetries_def Let_def)
  assume "\<not> attempt < 3"
  then show "loading (snd (refreshAuthState attempt w)) = False"
    and "error (snd (refreshAuthState attempt w)) =
           (if contains_Network_or_connection (formatNetworkError t) then None else Some (formatNetworkError t))"
    using e2
    by (simp_all add: r refresh_catch_def maxRetries_def Let_def
          contains_Network_or_connection_def stop_loading_def log_thrown_def log_def)
qed

lemma denied_text:
  "\<not> str_includes (message denied) ''406''"
  "\<not> str_includes (message denied) ''Not Acceptable''"
  "code denied \<noteq> ''PGRST116''"
  "\<not> network_signature (message denied)"
  "network_signature (message net_error)"
  "formatNetworkError (Thrown denied) = ''permission denied for table profiles''"
  "\<not> contains_Network_or_connection (formatNetworkError (Thrown denied))"
  by code_simp+

text \<open>
  The claim C2 as stated fails: on attempt 1, with a signed-in user, a profile read
  refused with \<^verbatim>\<open>'permission denied for table profiles'\<close> (a text that matches none
  of the signatures) is thrown by \<^verbatim>\<open>fetchProfile\<close>, and the retry timer is set.
\<close>

theorem retry_on_non_network_failure:
  "\<not> network_signature (message denied) \<and>
   fst (refreshAuthState 1 (signed_in_world\<lparr>script := [Honest, Fail denied]\<rparr>)) = Some (Retry 2 2000)"
proof -
  let ?w = "signed_in_world\<lparr>script := [Honest, Fail denied]\<rparr>"
  let ?w1 = "?w\<lparr>loading := True, error := None, script := [Fail denied], calls := calls ?w @ [GetSession]\<rparr>"
  have g: "auth_getSession (?w\<lparr>loading := True, error := None\<rparr>) =
             (Resolved (Some (Session (Some user0))) None, ?w1)"
    by (simp add: auth_getSession_def request_def signed_in_world_def)
  have s: "script (?w1\<lparr>session := Some (Session (Some user0)), user := Some user0\<rparr>) = [Fail denied]"
    by simp
  have f: "fst (fetchProfile (u_id user0) (?w1\<lparr>session := Some (Session (Some user0)), user := Some user0\<rparr>)) =
             Inl (Thrown denied)"
    using fetch_throws_service_error [OF s denied_text(1) denied_text(2) denied_text(3)] .
  have "fst (refreshAuthState 1 ?w) = Some (Retry 2 2000)"
    using f
    by (auto simp: refreshAuthState_def g user_of_def refresh_catch_def maxRetries_def Let_def
          split: prod.splits sum.splits)
  then show ?thesis
    using denied_text(4) by simp
qed

theorem retry_decision_witness:
  "script (world0\<lparr>script := [Fail net_error]\<rparr>) = Fail net_error # [] \<and>
   fst (refreshAuthState 1 (world0\<lparr>script := [Fail net_error]\<rparr>)) = Some (Retry 2 2000) \<and>
   script (world0\<lparr>script := [Fail denied]\<rparr>) = Fail denied # [] \<and>
   fst (refreshAuthState 1 (world0\<lparr>script := [Fail denied]\<rparr>)) = None \<and>
   error (snd (refreshAuthState 1 (world0\<lparr>script := [Fail denied]\<rparr>))) = None \<and>
   script (world0\<lparr>script := [Reject (Thrown denied)]\<rparr>) = Reject (Thrown denied) # [] \<and>
   fst (refreshAuthState 1 (world0\<lparr>script := [Reject (Thrown denied)]\<rparr>)) = Some (Retry 2 2000) \<and>
   fst (fetchProfile (u_id user0)
          (signed_in_world\<lparr>script := [Fail denied], calls := [GetSession], loading := True,
                           error := None\<rparr>)) = Inl (Thrown denied) \<and>
   fst (refreshAuthState 2 (signed_in_world\<lparr>script := [Honest, Fail denied]\<rparr>)) = Some (Retry 3 4000) \<and>
   fst (refreshAuthState 3 (signed_in_world\<lparr>script := [Honest, Fail denied]\<rparr>)) = None \<and>
   loading (snd (refreshAuthState 3 (signed_in_world\<lparr>script := [Honest, Fail denied]\<rparr>))) = False \<and>
   error (snd (refreshAuthState 3 (signed_in_world\<lparr>script := [Honest, Fail denied]\<rparr>))) =
     Some ''permission denied for table profiles''"
proof -
  have s1: "script (world0\<lparr>script := [Fail net_error]\<rparr>) = Fail net_error # []"
    and s2: "script (world0\<lparr>script := [Fail denied]\<rparr>) = Fail denied # []"
    and s3: "script (world0\<lparr>script := [Reject (Thrown denied)]\<rparr>) = Reject (Thrown denied) # []"
    by simp_all
  note t1 = retry_decision [of "world0\<lparr>script := [Fail net_error]\<rparr>" net_error "[]" 1,
                            THEN conjunct1, rule_format, OF s1]
  note t2 = retry_decision [of "world0\<lparr>script := [Fail denied]\<rparr>" denied "[]" 1,
                            THEN conjunct1, rule_format, OF s2]
  note t3 = retry_decision [of "world0\<lparr>script := [Reject (Thrown denied)]\<rparr>" _ "[]" 1 "Thrown denied",
                            THEN conjunct2, THEN conjunct1, rule_format, OF s3]
  have a: "fst (refreshAuthState 1 (world0\<lparr>script := [Fail net_error]\<rparr>)) = Some (Retry 2 2000)"
    using t1 denied_text(5) by simp
  have b: "fst (refreshAuthState 1 (world0\<lparr>script := [Fail denied]\<rparr>)) = None"
    and c: "error (snd (refreshAuthState 1 (world0\<lparr>script := [Fail denied]\<rparr>))) = None"
    using t2 denied_text(4) by simp_all
  have d: "fst (refreshAuthState 1 (world0\<lparr>script := [Reject (Thrown denied)]\<rparr>)) = Some (Retry 2 2000)"
    using t3 by simp
  let ?w = "signed_in_world\<lparr>script := [Honest, Fail denied]\<rparr>"
  let ?w1 = "signed_in_world\<lparr>script := [Fail denied], calls := [GetSession], loading := True,
                           error := None\<rparr>"
  let ?cs = "Some (Session (Some user0))"
  have g: "auth_getSession (?w\<lparr>loading := True, error := None\<rparr>) = (Resolved ?cs None, ?w1)"
    by (simp add: auth_getSession_def request_def signed_in_world_def world0_def)
  have k: "?w1\<lparr>session := ?cs, user := Some user0\<rparr> = ?w1"
    by (simp add: signed_in_world_def world0_def)
  have u: "user_of ?cs = Some user0"
    by (simp add: user_of_def)
  have sc: "script ?w1 = Fail denied # []"
    by simp
  have f: "fst (fetchProfile (u_id user0) ?w1) = Inl (Thrown denied)"
    using fetch_throws_service_error [OF sc denied_text(1) denied_text(2) denied_text(3)] .
  then have f': "fetchProfile (u_id user0) (?w1\<lparr>session := ?cs, user := Some user0\<rparr>) =
                   (Inl (Thrown denied), snd (fetchProfile (u_id user0) ?w1))"
    by (simp only: k) (simp add: prod_eq_iff)
  note h = conjI [OF g conjI [OF u f']]
  note t4 = retry_decision [of ?w _ _ 2 "Thrown denied",
                            THEN conjunct2, THEN conjunct2, rule_format, OF h]
  note t5 = retry_decision [of ?w _ _ 3 "Thrown denied",
                            THEN conjunct2, THEN conjunct2, rule_format, OF h]
  have m: "fst (refreshAuthState 2 ?w) = Some (Retry 3 4000)"
    using t4 by simp
  have n: "fst (refreshAuthState 3 ?w) = None"
    and l: "loading (snd (refreshAuthState 3 ?w)) = False"
    using t5 by simp_all
  have "error (snd (refreshAuthState 3 ?w)) = Some (formatNetworkError (Thrown denied))"
    using t5 denied_text(7) by simp
  then have e: "error (snd (refreshAuthState 3 ?w)) = Some ''permission denied for table profiles''"
    by (simp only: denied_text(6))
  show ?thesis
    using s1 s2 s3 a b c d f m n l e by (simp only: simp_thms)
qed

subsection \<open>Issuing a one-time code\<close>

lemma toString_small: "n < 10 \<Longrightarrow> toString n = [digit_char n]"
  by (subst toString.simps) simp

lemma toString_step: "10 \<le> n \<Longrightarrow> toString n = toString (n div 10) @ [digit_char (n mod 10)]"
  by (subst toString.simps) simp

lemma toString_six:
  assumes "100000 \<le> n" and "n < 1000000"
  shows "toString n =
           [digit_char (n div 100000), digit_char (n div 10000 mod 10), digit_char (n div 1000 mod 10),
            digit_char (n div 100 mod 10), digit_char (n div 10 mod 10), digit_char (n mod 10)]"
proof -
  have d: "n div 10 div 10 = n div 100" "n div 100 div 10 = n div 1000"
    "n div 1000 div 10 = n div 10000" "n div 10000 div 10 = n div 100000"
    by (simp_all add: div_mult2_eq [symmetric])
  have 1: "toString n = toString (n div 10) @ [digit_char (n mod 10)]"
    using assms by (intro toString_step) simp
  have 2: "toString (n div 10) = toString (n div 100) @ [digit_char (n div 10 mod 10)]"
    using assms toString_step [of "n div 10"] by (simp add: d)
  have 3: "toString (n div 100) = toString (n div 1000) @ [digit_char (n div 100 mod 10)]"
    using assms toString_step [of "n div 100"] by (simp add: d)
  have 4: "toString (n div 1000) = toString (n div 10000) @ [digit_char (n div 1000 mod 10)]"
    using assms toString_step [of "n div 1000"] by (simp add: d)
  have 5: "toString (n div 10000) = toString (n div 100000) @ [digit_char (n div 10000 mod 10)]"
    using assms toString_step [of "n div 10000"] by (simp add: d)
  have 6: "toString (n div 100000) = [digit_char (n div 100000)]"
    using assms by (intro toString_small) simp
  show ?thesis
    by (simp add: 1 2 3 4 5 6)
qed

lemma digit_char_digit: "d < 10 \<Longrightarrow> digit_char d \<in> set ''0123456789''"
  unfolding digit_char_def by (rule nth_mem) simp

lemma digit_char_nonzero:
  assumes "0 < d" and "d < 10"
  shows "digit_char d \<noteq> CHR ''0''"
proof -
  have "d \<in> {1, 2, 3, 4, 5, 6, 7, 8, 9}"
    using assms by auto
  then show ?thesis
    by (auto simp: digit_char_def)
qed

lemma exponent_from_range:
  "e0 \<le> 1023 \<Longrightarrow> e0 \<le> exponent_from e0 y \<and> exponent_from e0 y \<le> 1023"
proof (induction e0 y rule: exponent_from.induct)
  case (1 e y)
  show ?case
  proof (cases "1023 \<le> e \<or> y < 2 powi (e + 1)")
    case True
    then show ?thesis
      using 1(2) by (subst exponent_from.simps, subst exponent_from.simps) simp
  next
    case False
    then have "e + 1 \<le> exponent_from (e + 1) y \<and> exponent_from (e + 1) y \<le> 1023"
      using 1(1) by simp
    then show ?thesis
      using False by (subst exponent_from.simps, subst exponent_from.simps) simp
  qed
qed

lemma exponent_from_upper:
  "e0 \<le> 1023 \<Longrightarrow> y < 2 powi 1024 \<Longrightarrow> y < 2 powi (exponent_from e0 y + 1)"
proof (induction e0 y rule: exponent_from.induct)
  case (1 e y)
  show ?case
  proof (cases "1023 \<le> e \<or> y < 2 powi (e + 1)")
    case True
    then have r: "exponent_from e y = e"
      by (subst exponent_from.simps) simp
    show ?thesis
    proof (cases "y < 2 powi (e + 1)")
      case True
      then show ?thesis by (simp add: r)
    next
      case False
      then have "e = 1023"
        using True 1(2) by simp
      then show ?thesis
        using 1(3) unfolding r by simp
    qed
  next
    case False
    then have r: "exponent_from e y = exponent_from (e + 1) y"
      by (subst exponent_from.simps) simp
    show ?thesis
      using 1(1) [OF False] False 1(3) by (simp add: r)
  qed
qed

lemma exponent_from_lower:
  "exponent_from e0 y \<noteq> e0 \<Longrightarrow> 2 powi (exponent_from e0 y) \<le> y"
proof (induction e0 y rule: exponent_from.induct)
  case (1 e y)
  show ?case
  proof (cases "1023 \<le> e \<or> y < 2 powi (e + 1)")
    case True
    then have "exponent_from e y = e"
      by (subst exponent_from.simps) simp
    then show ?thesis
      using 1(2) by simp
  next
    case False
    then have r: "exponent_from e y = exponent_from (e + 1) y"
      by (subst exponent_from.simps) simp
    show ?thesis
    proof (cases "exponent_from (e + 1) y = e + 1")
      case True
      then show ?thesis
        using False by (simp add: r)
    next
      case False': False
      then show ?thesis
        using 1(1) [OF False] by (simp add: r)
    qed
  qed
qed


lemma exponent_range: "- 1022 \<le> exponent y \<and> exponent y \<le> 1023"
  unfolding exponent_def by (rule exponent_from_range) simp

lemma exponent_le:
  assumes "\<bar>y\<bar> < 2 powi (k + 1)" and "- 1022 \<le> k"
  shows "exponent y \<le> k"
proof (rule ccontr)
  assume "\<not> exponent y \<le> k"
  then have g: "k + 1 \<le> exponent y"
    by simp
  then have "exponent_from (- 1022) \<bar>y\<bar> \<noteq> - 1022"
    using assms(2) by (simp add: exponent_def)
  then have "2 powi (exponent y) \<le> \<bar>y\<bar>"
    unfolding exponent_def by (rule exponent_from_lower)
  moreover have "(2::real) powi (k + 1) \<le> 2 powi (exponent y)"
    using g by (intro power_int_increasing) simp_all
  ultimately show False
    using assms(1) by simp
qed

lemma exponent_ge:
  assumes "2 powi k \<le> \<bar>y\<bar>" and "\<bar>y\<bar> < 2 powi 1024"
  shows "k \<le> exponent y"
proof (rule ccontr)
  assume "\<not> k \<le> exponent y"
  then have g: "exponent y + 1 \<le> k"
    by simp
  have "\<bar>y\<bar> < 2 powi (exponent y + 1)"
    unfolding exponent_def using assms(2) by (intro exponent_from_upper) simp_all
  moreover have "(2::real) powi (exponent y + 1) \<le> 2 powi k"
    using g by (intro power_int_increasing) simp_all
  ultimately show False
    using assms(1) by simp
qed

lemma ulp_pos: "0 < ulp y"
  by (simp add: ulp_def)

lemma round_half_even_bounds:
  "q - 1 / 2 \<le> of_int (round_half_even q)" "of_int (round_half_even q) \<le> q + 1 / 2"
  unfolding round_half_even_def Let_def by (auto; linarith)+

lemma round_half_even_le: "q \<le> of_int m \<Longrightarrow> round_half_even q \<le> m"
  using round_half_even_bounds(2) [of q] by linarith

lemma round_half_even_ge: "of_int m \<le> q \<Longrightarrow> m \<le> round_half_even q"
  using round_half_even_bounds(1) [of q] by linarith

lemma on_grid:
  assumes "exponent y - 52 \<le> k"
  shows "of_int m * 2 powi k = of_int (m * 2 ^ nat (k - (exponent y - 52))) * ulp y"
proof -
  have "(2::real) powi k = 2 powi (k - (exponent y - 52)) * 2 powi (exponent y - 52)"
    by (simp flip: power_int_add)
  also have "(2::real) powi (k - (exponent y - 52)) = 2 ^ nat (k - (exponent y - 52))"
    using assms by (simp add: power_int_nonneg_exp)
  finally show ?thesis
    by (simp add: ulp_def)
qed

lemma to_double_le:
  assumes "y \<le> of_int m * 2 powi k" and "exponent y - 52 \<le> k"
  shows "to_double y \<le> of_int m * 2 powi k"
proof -
  let ?M = "m * 2 ^ nat (k - (exponent y - 52))"
  have c: "of_int m * 2 powi k = of_int ?M * ulp y"
    using assms(2) by (rule on_grid)
  have "y / ulp y \<le> of_int ?M"
    using assms(1) ulp_pos [of y] unfolding c by (simp add: field_simps)
  then have "round_half_even (y / ulp y) \<le> ?M"
    by (rule round_half_even_le)
  then have "(of_int (round_half_even (y / ulp y)) :: real) \<le> of_int ?M"
    by (simp only: of_int_le_iff)
  then have "of_int (round_half_even (y / ulp y)) * ulp y \<le> of_int ?M * ulp y"
    by (rule mult_right_mono) (rule less_imp_le [OF ulp_pos])
  then show ?thesis
    unfolding c to_double_def .
qed

lemma to_double_ge:
  assumes "of_int m * 2 powi k \<le> y" and "exponent y - 52 \<le> k"
  shows "of_int m * 2 powi k \<le> to_double y"
proof -
  let ?M = "m * 2 ^ nat (k - (exponent y - 52))"
  have c: "of_int m * 2 powi k = of_int ?M * ulp y"
    using assms(2) by (rule on_grid)
  have "of_int ?M \<le> y / ulp y"
    using assms(1) ulp_pos [of y] unfolding c by (simp add: field_simps)
  then have "?M \<le> round_half_even (y / ulp y)"
    by (rule round_half_even_ge)
  then have "(of_int ?M :: real) \<le> of_int (round_half_even (y / ulp y))"
    by (simp only: of_int_le_iff)
  then have "of_int ?M * ulp y \<le> of_int (round_half_even (y / ulp y)) * ulp y"
    by (rule mult_right_mono) (rule less_imp_le [OF ulp_pos])
  then show ?thesis
    unfolding c to_double_def .
qed

lemma to_double_exact:
  assumes "y = of_int m * 2 powi k" and "exponent y - 52 \<le> k"
  shows "to_double y = y"
  using to_double_le [of y m k] to_double_ge [of m k y] assms by simp

lemma double_below_one:
  assumes "is_double rnd" and "0 \<le> rnd" and "rnd < 1"
  shows "rnd \<le> 1 - 1 / 2 ^ 53"
proof (cases "rnd < 1 / 2")
  case True
  then show ?thesis by simp
next
  case False
  then have h: "1 / 2 \<le> rnd"
    by simp
  have "exponent rnd \<le> - 1"
    using assms(2,3) by (intro exponent_le) simp_all
  moreover have "- 1 \<le> exponent rnd"
    using assms(2,3) h by (intro exponent_ge) simp_all
  ultimately have u: "ulp rnd = 1 / 2 ^ 53"
    by (simp add: ulp_def)
  define n where "n = round_half_even (rnd / ulp rnd)"
  have r: "rnd = of_int n / 2 ^ 53"
    using assms(1) by (simp add: is_double_def to_double_def n_def u)
  then have "of_int n < (2 ^ 53 :: real)"
    using assms(3) by simp
  then have "n < 2 ^ 53"
    by simp
  then have "n \<le> 2 ^ 53 - 1"
    by simp
  then have "(of_int n :: real) \<le> of_int (2 ^ 53 - 1)"
    by (simp only: of_int_le_iff)
  then have "(of_int n :: real) \<le> 2 ^ 53 - 1"
    by simp
  then show ?thesis
    unfolding r by (simp add: field_simps)
qed

lemma product_bounds:
  assumes "0 \<le> rnd" and "rnd \<le> 1 - 1 / 2 ^ 53"
  shows "0 \<le> to_double (rnd * 900000)"
    and "to_double (rnd * 900000) \<le> 900000 - 1 / 2 ^ 33"
proof -
  let ?y = "rnd * 900000"
  have y0: "0 \<le> ?y" and y1: "?y \<le> 900000 - 900000 / 2 ^ 53"
    using assms by simp_all
  have "of_int 0 * 2 powi (exponent ?y - 52) \<le> to_double ?y"
    using y0 by (intro to_double_ge) simp_all
  then show "0 \<le> to_double ?y"
    by simp
  show "to_double ?y \<le> 900000 - 1 / 2 ^ 33"
  proof (cases "?y < 2 ^ 19")
    case True
    have "exponent ?y \<le> 18"
      using y0 True by (intro exponent_le) simp_all
    then have "to_double ?y \<le> of_int 1 * 2 powi 19"
      using True by (intro to_double_le) simp_all
    then show ?thesis
      by simp
  next
    case False
    have "exponent ?y \<le> 19"
      using y0 y1 by (intro exponent_le) simp_all
    moreover have "19 \<le> exponent ?y"
      using y0 y1 False by (intro exponent_ge) simp_all
    ultimately have u: "ulp ?y = 1 / 2 ^ 33"
      by (simp add: ulp_def)
    define n where "n = round_half_even (?y / ulp ?y)"
    have "of_int n \<le> ?y / ulp ?y + 1 / 2"
      unfolding n_def by (rule round_half_even_bounds(2))
    also have "\<dots> < 900000 * 2 ^ 33"
      using y1 by (simp add: u)
    finally have "n < 900000 * 2 ^ 33"
      by simp
    then have "n \<le> 900000 * 2 ^ 33 - 1"
      by simp
    then have "(of_int n :: real) \<le> of_int (900000 * 2 ^ 33 - 1)"
      by (simp only: of_int_le_iff)
    then have b: "(of_int n :: real) \<le> 900000 * 2 ^ 33 - 1"
      by simp
    have "to_double ?y = of_int n * ulp ?y"
      by (simp only: to_double_def n_def)
    then have t: "to_double ?y = of_int n / 2 ^ 33"
      by (simp only: u) simp
    show ?thesis
      using b unfolding t by (simp add: field_simps)
  qed
qed

lemma sum_bounds:
  assumes "0 \<le> p" and "p \<le> 900000 - 1 / 2 ^ 33"
  shows "100000 \<le> to_double (100000 + p)"
    and "to_double (100000 + p) \<le> 1000000 - 1 / 2 ^ 33"
proof -
  let ?z = "100000 + p"
  have e: "exponent ?z \<le> 19"
    using assms by (intro exponent_le) simp_all
  have "of_int 100000 * 2 powi 0 \<le> to_double ?z"
    using assms e by (intro to_double_ge) simp_all
  then show "100000 \<le> to_double ?z"
    by simp
  have "to_double ?z \<le> of_int (1000000 * 2 ^ 33 - 1) * 2 powi (- 33)"
    using assms e by (intro to_double_le) (simp_all add: field_simps)
  then show "to_double ?z \<le> 1000000 - 1 / 2 ^ 33"
    by (simp add: field_simps)
qed

lemma otp_number_range:
  assumes "is_double rnd" and "0 \<le> rnd" and "rnd < 1"
  shows "100000 \<le> otp_number rnd" and "otp_number rnd \<le> 999999"
proof -
  note b = double_below_one [OF assms]
  note p = product_bounds [OF assms(2) b]
  note s = sum_bounds [OF p]
  have lo: "(100000::int) \<le> \<lfloor>to_double (100000 + to_double (rnd * 900000))\<rfloor>"
    using s(1) by (simp add: le_floor_iff)
  have hi: "\<lfloor>to_double (100000 + to_double (rnd * 900000))\<rfloor> < (1000000::int)"
    using s(2) by (simp add: floor_less_iff) 
  show "100000 \<le> otp_number rnd" and "otp_number rnd \<le> 999999"
    using lo hi unfolding otp_number_def by linarith+
qed


lemma otp_number_bracket:
  assumes "0 \<le> rnd" and "rnd < 1"
  shows "nat \<lfloor>100000 + rnd * 900000\<rfloor> \<le> otp_number rnd"
    and "otp_number rnd \<le> nat \<lfloor>100000 + rnd * 900000\<rfloor> + 1"
proof -
  let ?y = "rnd * 900000"
  define c where "c = \<lfloor>?y\<rfloor>"
  have y0: "0 \<le> ?y" and y1: "?y < 900000"
    using assms by simp_all
  have c0: "0 \<le> c" and c1: "c < 900000"
    using y0 y1 by (simp_all add: c_def floor_less_iff)
  have cl: "of_int c \<le> ?y" and cu: "?y \<le> of_int (c + 1)"
    unfolding c_def by linarith+
  have ey: "exponent ?y \<le> 19"
    using y0 y1 by (intro exponent_le) simp_all
  let ?p = "to_double ?y"
  have "of_int c * 2 powi 0 \<le> ?p"
    using cl ey by (intro to_double_ge) simp_all
  then have pl: "of_int c \<le> ?p"
    by simp
  have "?p \<le> of_int (c + 1) * 2 powi 0"
    using cu ey by (intro to_double_le) simp_all
  then have pu: "?p \<le> of_int (c + 1)"
    by simp
  let ?z = "100000 + ?p"
  have z0: "0 \<le> ?z" and z1: "?z < 2 ^ 20"
    using pl pu c0 c1 by simp_all
  have ez: "exponent ?z \<le> 19"
    using z0 z1 by (intro exponent_le) simp_all
  have "of_int (100000 + c) * 2 powi 0 \<le> to_double ?z"
    using pl ez by (intro to_double_ge) simp_all
  then have sl: "of_int (100000 + c) \<le> to_double ?z"
    by simp
  have "to_double ?z \<le> of_int (100000 + c + 1) * 2 powi 0"
    using pu ez by (intro to_double_le) simp_all
  then have su: "to_double ?z \<le> of_int (100000 + c + 1)"
    by simp
  have f: "\<lfloor>100000 + ?y\<rfloor> = 100000 + c"
    unfolding c_def by linarith
  have "100000 + c \<le> \<lfloor>to_double ?z\<rfloor>"
    using sl by (simp only: le_floor_iff)
  moreover have "\<lfloor>to_double ?z\<rfloor> \<le> 100000 + c + 1"
    using su by (metis floor_mono floor_of_int)
  ultimately show "nat \<lfloor>100000 + rnd * 900000\<rfloor> \<le> otp_number rnd"
    and "otp_number rnd \<le> nat \<lfloor>100000 + rnd * 900000\<rfloor> + 1"
    using c0 unfolding otp_number_def f by linarith+
qed

lemma exact_integer:
  assumes "\<bar>of_int m :: real\<bar> < 2 ^ 53"
  shows "to_double (of_int m) = of_int m"
proof -
  have "exponent (of_int m) \<le> 52"
    using assms by (intro exponent_le) simp_all
  then show ?thesis
    using to_double_exact [of "of_int m" m 0] by simp
qed

lemma is_double_half: "is_double (1 / 2)"
proof -
  have "exponent (1 / 2) \<le> - 1"
    by (intro exponent_le) simp_all
  then show ?thesis
    using to_double_exact [of "1 / 2" 1 "- 1"] by (simp add: is_double_def)
qed

lemma otp_number_half: "otp_number (1 / 2) = 550000"
  using exact_integer [of 450000] exact_integer [of 550000] by (simp add: otp_number_def)

lemma rounding_lifts_the_code:
  "otp_number (263920946163083 / 2 ^ 53) = 126371"
  "nat \<lfloor>(100000::real) + 263920946163083 / 2 ^ 53 * 900000\<rfloor> = 126370"
proof -
  define y :: real where "y = 263920946163083 / 2 ^ 53 * 900000"
  have b: "0 \<le> y" "2 ^ 14 \<le> y" "y < 2 ^ 15"
    by (simp_all add: y_def)
  have "exponent y \<le> 14"
    using b by (intro exponent_le) simp_all
  moreover have "14 \<le> exponent y"
    using b by (intro exponent_ge) simp_all
  ultimately have u: "ulp y = 1 / 2 ^ 38"
    by (simp add: ulp_def)
  have q: "y / ulp y = 7422776610836709375 / 1024"
    by (simp only: u) (simp add: y_def)
  have r: "round_half_even (7422776610836709375 / 1024) = 7248805284020224"
    by (simp add: round_half_even_def Let_def)
  have p: "to_double y = 26371"
    unfolding to_double_def by (subst q, subst r, subst u) simp
  have "otp_number (263920946163083 / 2 ^ 53) = nat \<lfloor>to_double (100000 + to_double y)\<rfloor>"
    by (simp only: otp_number_def y_def)
  then show "otp_number (263920946163083 / 2 ^ 53) = 126371"
    using exact_integer [of 126371] by (simp add: p)
  show "nat \<lfloor>(100000::real) + 263920946163083 / 2 ^ 53 * 900000\<rfloor> = 126370"
    by simp
qed

lemma digit_value_digit_char: "d < 10 \<Longrightarrow> digit_value (digit_char d) = d"
proof -
  assume "d < 10"
  then have "d \<in> {0, 1, 2, 3, 4, 5, 6, 7, 8, 9}"
    by auto
  then show ?thesis
    by (auto simp: digit_char_def digit_value_def)
qed

lemma decimal_value_snoc: "decimal_value (s @ [c]) = 10 * decimal_value s + digit_value c"
  by (simp add: decimal_value_def)

lemma decimal_value_toString: "decimal_value (toString n) = n"
proof (induction n rule: toString.induct)
  case (1 n)
  show ?case
  proof (cases "n < 10")
    case True
    then show ?thesis
      by (simp add: toString_small decimal_value_def digit_value_digit_char)
  next
    case False
    then have "decimal_value (toString (n div 10)) = n div 10"
      using 1 by simp
    then show ?thesis
      using False by (simp add: toString_step decimal_value_snoc digit_value_digit_char)
  qed
qed

lemma generate_otp_shape:
  assumes "is_double rnd" and "0 \<le> rnd" and "rnd < 1"
  shows "length (generate_otp rnd) = 6"
    and "set (generate_otp rnd) \<subseteq> set ''0123456789''"
    and "hd (generate_otp rnd) \<noteq> CHR ''0''"
proof -
  let ?n = "otp_number rnd"
  have r: "100000 \<le> ?n" "?n < 1000000"
    using otp_number_range [OF assms] by simp_all
  note six = toString_six [OF r]
  show "length (generate_otp rnd) = 6"
    by (simp add: generate_otp_def six)
  have lead: "0 < ?n div 100000" "?n div 100000 < 10"
    using r by (simp_all add: div_greater_zero_iff less_mult_imp_div_less)
  show "hd (generate_otp rnd) \<noteq> CHR ''0''"
    using digit_char_nonzero [OF lead] by (simp add: generate_otp_def six)
  have "digit_char (?n div 100000) \<in> set ''0123456789''"
    using lead by (intro digit_char_digit)
  moreover have "\<And>k. digit_char (k mod 10) \<in> set ''0123456789''"
    by (intro digit_char_digit) simp
  ultimately show "set (generate_otp rnd) \<subseteq> set ''0123456789''"
    unfolding generate_otp_def six by (simp only: set_simps insert_subset empty_subsetI simp_thms)
qed

lemma sendOtp_honest:
  assumes "user w = Some u" and "script w = []"
  shows "sendOtp phone email type rnd w =
     (Inr True,
      w\<lparr>calls := calls w @ [InsertOtp (u_id u) type (generate_otp rnd)],
        otp_verifications := otp_verifications w @
          [\<lparr>o_id = next_id w, o_user_id = u_id u,
            o_phone = (if type = Phone then Some phone else None),
            o_email = (if type = Email then Some email else None),
            o_otp_code = generate_otp rnd, o_otp_type = type,
            o_expires_at = clock w + 600000, o_is_verified = False, o_verified_at = None,
            o_created_at = clock w\<rparr>],
        next_id := next_id w + 1,
        console := console w @ [''OTP for '' @ otp_type_name type @ '': '' @ generate_otp rnd]\<rparr>)"
  using assms
  by (simp add: sendOtp_def sendOtp_try_def insert_otp_def request_def Let_def log_def)


text \<open>
  C3, as amended. For a signed-in user, a draw \<open>rnd\<close> (a double in \<open>[0, 1)\<close>) and a
  service that answers honestly, the stored code is a string of six decimal digits, the
  first never zero, and the number it denotes is the value of
  \<^verbatim>\<open>Math.floor(100000 + Math.random() * 900000)\<close> in double arithmetic: a number from
  100000 to 999999 that equals \<open>\<lfloor>100000 + 900000 rnd\<rfloor>\<close> or exceeds it by one. The
  stored row carries the user, the chosen channel with the contact value of that channel
  only, and an expiry 600000 milliseconds after the issuance instant. \<^verbatim>\<open>sendOtp\<close>
  returns \<^verbatim>\<open>true\<close>; its one call to the service is the insert, and it prints the code
  on the console.
\<close>

theorem sendOtp_issues_six_digit_code:
  assumes "user w = Some u" and "script w = []"
    and "is_double rnd" and "0 \<le> rnd" and "rnd < 1"
  shows "100000 \<le> otp_number rnd \<and> otp_number rnd \<le> 999999 \<and>
         nat \<lfloor>100000 + rnd * 900000\<rfloor> \<le> otp_number rnd \<and>
         otp_number rnd \<le> nat \<lfloor>100000 + rnd * 900000\<rfloor> + 1 \<and>
         decimal_value (generate_otp rnd) = otp_number rnd \<and>
         length (generate_otp rnd) = 6 \<and>
         set (generate_otp rnd) \<subseteq> set ''0123456789'' \<and>
         hd (generate_otp rnd) \<noteq> CHR ''0'' \<and>
         fst (sendOtp phone email type rnd w) = Inr True \<and>
         otp_verifications (snd (sendOtp phone email type rnd w)) =
           otp_verifications w @
             [\<lparr>o_id = next_id w, o_user_id = u_id u,
               o_phone = (if type = Phone then Some phone else None),
               o_email = (if type = Email then Some email else None),
               o_otp_code = generate_otp rnd, o_otp_type = type,
               o_expires_at = clock w + 10 * 60 * 1000, o_is_verified = False,
               o_verified_at = None, o_created_at = clock w\<rparr>] \<and>
         calls (snd (sendOtp phone email type rnd w)) =
           calls w @ [InsertOtp (u_id u) type (generate_otp rnd)] \<and>
         console (snd (sendOtp phone email type rnd w)) =
           console w @ [''OTP for '' @ otp_type_name type @ '': '' @ generate_otp rnd]"
proof -
  have d: "decimal_value (generate_otp rnd) = otp_number rnd"
    by (simp add: generate_otp_def decimal_value_toString)
  show ?thesis
    using otp_number_range [OF assms(3,4,5)] otp_number_bracket [OF assms(4,5)]
      generate_otp_shape [OF assms(3,4,5)] d
    by (simp add: sendOtp_honest [OF assms(1,2)])
qed

text \<open>
  The claim C3 as stated fails: no draw yields a code with a leading zero, for instance
  \<^verbatim>\<open>'012345'\<close>.
\<close>

theorem otp_never_has_leading_zero:
  "\<not> (\<exists>rnd. is_double rnd \<and> 0 \<le> rnd \<and> rnd < 1 \<and> generate_otp rnd = ''012345'')"
proof
  assume "\<exists>rnd. is_double rnd \<and> 0 \<le> rnd \<and> rnd < 1 \<and> generate_otp rnd = ''012345''"
  then obtain rnd where r: "is_double rnd" "0 \<le> rnd" "rnd < 1"
    and g: "generate_otp rnd = ''012345''"
    by blast
  have "hd (generate_otp rnd) \<noteq> CHR ''0''"
    using r by (rule generate_otp_shape(3))
  then show False
    by (simp add: g)
qed

lemma generate_otp_half: "generate_otp (1 / 2) = ''550000''"
  by (simp add: generate_otp_def otp_number_half toString.simps digit_char_def)

lemma is_double_sample: "is_double (263920946163083 / 2 ^ 53)"
proof -
  have "exponent (263920946163083 / 2 ^ 53) \<le> - 1"
    by (intro exponent_le) simp_all
  then show ?thesis
    using to_double_exact [of "263920946163083 / 2 ^ 53" 263920946163083 "- 53"]
    by (simp add: is_double_def)
qed

theorem sendOtp_issues_six_digit_code_witness:
  "user signed_in_world = Some user0 \<and> script signed_in_world = [] \<and>
   is_double (1 / 2) \<and> (0::real) \<le> 1 / 2 \<and> (1::real) / 2 < 1 \<and>
   otp_number (1 / 2) = 550000 \<and>
   generate_otp (1 / 2) = ''550000'' \<and>
   decimal_value (generate_otp (1 / 2)) = otp_number (1 / 2) \<and>
   fst (sendOtp ''+919800000000'' [] Phone (1 / 2) signed_in_world) = Inr True \<and>
   otp_verifications (snd (sendOtp ''+919800000000'' [] Phone (1 / 2) signed_in_world)) =
     [\<lparr>o_id = 1, o_user_id = 7, o_phone = Some ''+919800000000'', o_email = None,
       o_otp_code = ''550000'', o_otp_type = Phone, o_expires_at = 601000,
       o_is_verified = False, o_verified_at = None, o_created_at = 1000\<rparr>] \<and>
   is_double (263920946163083 / 2 ^ 53) \<and>
   (0::real) \<le> 263920946163083 / 2 ^ 53 \<and> (263920946163083::real) / 2 ^ 53 < 1 \<and>
   nat \<lfloor>(100000::real) + 263920946163083 / 2 ^ 53 * 900000\<rfloor> = 126370 \<and>
   otp_number (263920946163083 / 2 ^ 53) = 126371 \<and>
   otp_number (263920946163083 / 2 ^ 53) \<le>
     nat \<lfloor>(100000::real) + 263920946163083 / 2 ^ 53 * 900000\<rfloor> + 1 \<and>
   decimal_value (generate_otp (263920946163083 / 2 ^ 53)) = 126371"
proof -
  have a: "user signed_in_world = Some user0" and b: "script signed_in_world = []"
    by (simp_all add: signed_in_world_def world0_def)
  have c: "(0::real) \<le> 1 / 2" and d: "(1::real) / 2 < 1"
    by simp_all
  have f: "otp_verifications signed_in_world = []" "next_id signed_in_world = 1"
    "clock signed_in_world = 1000" "u_id user0 = 7"
    by (simp_all add: signed_in_world_def world0_def user0_def)
  note t = sendOtp_issues_six_digit_code [OF a b is_double_half c d, of "''+919800000000''" "[]" Phone]
  have g: "fst (sendOtp ''+919800000000'' [] Phone (1 / 2) signed_in_world) = Inr True"
    using t by blast
  have v: "decimal_value (generate_otp (1 / 2)) = otp_number (1 / 2)"
    using t by blast
  have h: "otp_verifications (snd (sendOtp ''+919800000000'' [] Phone (1 / 2) signed_in_world)) =
     [\<lparr>o_id = 1, o_user_id = 7, o_phone = Some ''+919800000000'', o_email = None,
       o_otp_code = ''550000'', o_otp_type = Phone, o_expires_at = 601000,
       o_is_verified = False, o_verified_at = None, o_created_at = 1000\<rparr>]"
    using t by (simp add: f generate_otp_half)
  have c': "(0::real) \<le> 263920946163083 / 2 ^ 53" and d': "(263920946163083::real) / 2 ^ 53 < 1"
    by simp_all
  note t' = sendOtp_issues_six_digit_code [OF a b is_double_sample c' d',
              of "''+919800000000''" "[]" Phone]
  have i: "otp_number (263920946163083 / 2 ^ 53) \<le>
     nat \<lfloor>(100000::real) + 263920946163083 / 2 ^ 53 * 900000\<rfloor> + 1"
    using t' by blast
  have "decimal_value (generate_otp (263920946163083 / 2 ^ 53)) =
          otp_number (263920946163083 / 2 ^ 53)"
    using t' by blast
  then have j: "decimal_value (generate_otp (263920946163083 / 2 ^ 53)) = 126371"
    by (simp only: rounding_lifts_the_code(1))
  show ?thesis
    using a b is_double_half c d otp_number_half generate_otp_half v g h
      is_double_sample c' d' rounding_lifts_the_code(2) rounding_lifts_the_code(1) i j
    by (simp only: simp_thms)
qed

subsection \<open>Verifying a one-time code\<close>

lemma latest_cases: "latest rs = [] \<or> (\<exists>m. latest rs = [m])"
  by (induction rs) (auto split: list.splits)

lemma latest_Nil: "latest rs = [] \<longleftrightarrow> rs = []"
  by (induction rs) (auto split: list.splits)

lemma latest_newest:
  "latest rs = [m] \<Longrightarrow> m \<in> set rs \<and> (\<forall>r \<in> set rs. o_created_at r \<le> o_created_at m)"
proof (induction rs arbitrary: m)
  case Nil
  then show ?case by simp
next
  case (Cons r rs)
  show ?case
  proof (cases "latest rs")
    case Nil
    then have "rs = []"
      by (simp add: latest_Nil)
    then show ?thesis
      using Cons.prems by simp
  next
    case (Cons m' ms)
    then have l: "latest rs = [m']"
      using latest_cases [of rs] by auto
    show ?thesis
      using Cons.prems Cons.IH [OF l] l by (auto split: if_splits)
  qed
qed

lemma select_otp_honest:
  "script w = [] \<Longrightarrow>
   select_otp uid ty w =
     (single (latest (filter (eligible uid ty (clock w)) (otp_verifications w))),
      w\<lparr>calls := calls w @ [SelectOtp uid ty]\<rparr>)"
  by (simp add: select_otp_def request_def)

lemma update_otp_honest:
  "script w = [] \<Longrightarrow>
   update_otp i w =
     (Resolved None None,
      w\<lparr>calls := calls w @ [UpdateOtp i],
        otp_verifications := map (mark_verified i (clock w)) (otp_verifications w)\<rparr>)"
  by (simp add: update_otp_def request_def)

lemma verify_none:
  assumes "user w = Some u" and "script w = []"
    and "filter (eligible (u_id u) ty (clock w)) (otp_verifications w) = []"
  shows "fst (verifyOtp_try u otp ty w) = Inl (Error ''No valid OTP found'')"
    and "fst (verifyOtp otp ty w) = Inr False"
    and "otp_verifications (snd (verifyOtp otp ty w)) = otp_verifications w"
  using assms
  by (simp_all add: verifyOtp_def verifyOtp_try_def select_otp_honest single_def log_def log_thrown_def)

lemma verify_match:
  assumes "user w = Some u" and "script w = []"
    and "latest (filter (eligible (u_id u) ty (clock w)) (otp_verifications w)) = [m]"
    and "o_otp_code m = otp"
  shows "verifyOtp otp ty w =
           (Inr True,
            w\<lparr>calls := calls w @ [SelectOtp (u_id u) ty, UpdateOtp (o_id m)],
              otp_verifications := map (mark_verified (o_id m) (clock w)) (otp_verifications w)\<rparr>)"
  using assms
  by (simp add: verifyOtp_def verifyOtp_try_def select_otp_honest single_def update_otp_honest)

lemma verify_mismatch:
  assumes "user w = Some u" and "script w = []"
    and "latest (filter (eligible (u_id u) ty (clock w)) (otp_verifications w)) = [m]"
    and "o_otp_code m \<noteq> otp"
  shows "verifyOtp otp ty w = (Inr False, w\<lparr>calls := calls w @ [SelectOtp (u_id u) ty]\<rparr>)"
  using assms
  by (simp add: verifyOtp_def verifyOtp_try_def select_otp_honest single_def)

lemma eligible_after_mark:
  "filter (eligible uid ty t) (map (mark_verified i now) rs) =
   filter (\<lambda>r. eligible uid ty t r \<and> o_id r \<noteq> i) rs"
  by (induction rs) (auto simp: mark_verified_def eligible_def)

lemma verify_only_if:
  assumes "user w = Some u" and "fst (verifyOtp otp ty w) = Inr True"
  shows "\<exists>m. latest (filter (eligible (u_id u) ty (clock w)) (otp_verifications w)) = [m] \<and>
             o_otp_code m = otp \<and>
             otp_verifications (snd (verifyOtp otp ty w)) =
               map (mark_verified (o_id m) (clock w)) (otp_verifications w)"
proof -
  let ?rows = "latest (filter (eligible (u_id u) ty (clock w)) (otp_verifications w))"
  let ?w1 = "w\<lparr>script := tl (script w), calls := calls w @ [SelectOtp (u_id u) ty]\<rparr>"
  have t: "fst (verifyOtp_try u otp ty w) = Inr True"
    and e: "snd (verifyOtp otp ty w) = snd (verifyOtp_try u otp ty w)"
    using assms by (auto simp: verifyOtp_def split: prod.splits sum.splits)
  have h: "next_reply w = Honest"
    using t
    by (cases "next_reply w")
       (auto simp: verifyOtp_try_def select_otp_def request_eq single_def split: prod.splits)
  then have s: "select_otp (u_id u) ty w = (single ?rows, ?w1)"
    by (simp add: select_otp_def request_eq)
  from latest_cases [of "filter (eligible (u_id u) ty (clock w)) (otp_verifications w)"]
  show ?thesis
  proof
    assume "?rows = []"
    then show ?thesis
      using t by (simp add: verifyOtp_try_def s single_def)
  next
    assume "\<exists>m. ?rows = [m]"
    then obtain m where m: "?rows = [m]"
      by blast
    have c: "o_otp_code m = otp"
      using t by (auto simp: verifyOtp_try_def s m single_def split: if_splits)
    have "otp_verifications (snd (verifyOtp_try u otp ty w)) =
            map (mark_verified (o_id m) (clock w)) (otp_verifications w)"
      using t c
      by (cases "next_reply ?w1")
         (auto simp: verifyOtp_try_def s m single_def update_otp_def request_eq split: prod.splits)
    then show ?thesis
      using m c e by simp
  qed
qed


lemma verify_second:
  assumes "user w = Some u" and "script w = []"
    and "latest (filter (eligible (u_id u) ty (clock w)) (otp_verifications w)) = [m]"
    and "o_otp_code m = otp"
    and "\<forall>r \<in> set (otp_verifications w).
           eligible (u_id u) ty t r \<and> o_id r \<noteq> o_id m \<longrightarrow> o_otp_code r \<noteq> otp"
  shows "fst (verifyOtp otp ty ((snd (verifyOtp otp ty w))\<lparr>clock := t\<rparr>)) = Inr False"
proof -
  let ?w' = "(snd (verifyOtp otp ty w))\<lparr>clock := t\<rparr>"
  let ?rows = "filter (\<lambda>r. eligible (u_id u) ty t r \<and> o_id r \<noteq> o_id m) (otp_verifications w)"
  have u: "user ?w' = Some u" and s: "script ?w' = []" and c: "clock ?w' = t"
    using assms(1,2) by (simp_all add: verify_match [OF assms(1-4)])
  have rows: "filter (eligible (u_id u) ty (clock ?w')) (otp_verifications ?w') = ?rows"
    by (simp add: verify_match [OF assms(1-4)] eligible_after_mark)
  from latest_cases [of ?rows] show ?thesis
  proof
    assume "latest ?rows = []"
    then have "filter (eligible (u_id u) ty (clock ?w')) (otp_verifications ?w') = []"
      using rows by (simp add: latest_Nil)
    then show ?thesis
      by (rule verify_none(2) [OF u s])
  next
    assume "\<exists>m2. latest ?rows = [m2]"
    then obtain m2 where m2: "latest ?rows = [m2]"
      by blast
    then have "m2 \<in> set ?rows"
      using latest_newest by blast
    then have d: "o_otp_code m2 \<noteq> otp"
      using assms(5) by simp
    have l: "latest (filter (eligible (u_id u) ty (clock ?w')) (otp_verifications ?w')) = [m2]"
      using rows m2 by simp
    show ?thesis
      by (simp add: verify_mismatch [OF u s l d])
  qed
qed

text \<open>
  C1, as amended. For a signed-in user, \<^verbatim>\<open>verifyOtp\<close> returns \<^verbatim>\<open>true\<close> only when the
  lookup yields a row of that user and channel, unexpired and unverified, that no other
  such row was created after, and the supplied code equals the code of that row; the
  rows with its identifier are then marked verified at the present instant. With an
  honest service: when no such row exists, \<^verbatim>\<open>'No valid OTP found'\<close> is thrown inside
  the \<^verbatim>\<open>try\<close> block and the result is \<^verbatim>\<open>false\<close>, the table unchanged; when the code
  matches, the result is \<^verbatim>\<open>true\<close>. The marked row is excluded from every later lookup,
  and a second verification with the same code returns \<^verbatim>\<open>false\<close> provided that no
  other row eligible at that time carries the same code.
\<close>

theorem verifyOtp_latest_eligible_record:
  assumes "user w = Some u"
  shows
   "(fst (verifyOtp otp ty w) = Inr True \<longrightarrow>
       (\<exists>m. latest (filter (eligible (u_id u) ty (clock w)) (otp_verifications w)) = [m] \<and>
            m \<in> set (otp_verifications w) \<and> eligible (u_id u) ty (clock w) m \<and>
            (\<forall>r \<in> set (otp_verifications w).
               eligible (u_id u) ty (clock w) r \<longrightarrow> o_created_at r \<le> o_created_at m) \<and>
            o_otp_code m = otp \<and>
            otp_verifications (snd (verifyOtp otp ty w)) =
              map (mark_verified (o_id m) (clock w)) (otp_verifications w))) \<and>
    (script w = [] \<and> filter (eligible (u_id u) ty (clock w)) (otp_verifications w) = [] \<longrightarrow>
       fst (verifyOtp_try u otp ty w) = Inl (Error ''No valid OTP found'') \<and>
       fst (verifyOtp otp ty w) = Inr False \<and>
       otp_verifications (snd (verifyOtp otp ty w)) = otp_verifications w) \<and>
    (\<forall>m. script w = [] \<and>
         latest (filter (eligible (u_id u) ty (clock w)) (otp_verifications w)) = [m] \<and>
         o_otp_code m = otp \<longrightarrow>
       fst (verifyOtp otp ty w) = Inr True \<and>
       otp_verifications (snd (verifyOtp otp ty w)) =
         map (mark_verified (o_id m) (clock w)) (otp_verifications w) \<and>
       mark_verified (o_id m) (clock w) m = m\<lparr>o_is_verified := True, o_verified_at := Some (clock w)\<rparr> \<and>
       (\<forall>t. (\<forall>r \<in> set (otp_verifications (snd (verifyOtp otp ty w))).
                eligible (u_id u) ty t r \<longrightarrow> o_id r \<noteq> o_id m) \<and>
            ((\<forall>r \<in> set (otp_verifications w).
                eligible (u_id u) ty t r \<and> o_id r \<noteq> o_id m \<longrightarrow> o_otp_code r \<noteq> otp) \<longrightarrow>
             fst (verifyOtp otp ty ((snd (verifyOtp otp ty w))\<lparr>clock := t\<rparr>)) = Inr False)))"
proof (intro conjI impI allI)
  assume "fst (verifyOtp otp ty w) = Inr True"
  then obtain m where l: "latest (filter (eligible (u_id u) ty (clock w)) (otp_verifications w)) = [m]"
    and c: "o_otp_code m = otp"
    and t: "otp_verifications (snd (verifyOtp otp ty w)) =
              map (mark_verified (o_id m) (clock w)) (otp_verifications w)"
    using verify_only_if [OF assms] by blast
  have n: "m \<in> set (filter (eligible (u_id u) ty (clock w)) (otp_verifications w)) \<and>
           (\<forall>r \<in> set (filter (eligible (u_id u) ty (clock w)) (otp_verifications w)).
              o_created_at r \<le> o_created_at m)"
    using latest_newest [OF l] .
  show "\<exists>m. latest (filter (eligible (u_id u) ty (clock w)) (otp_verifications w)) = [m] \<and>
            m \<in> set (otp_verifications w) \<and> eligible (u_id u) ty (clock w) m \<and>
            (\<forall>r \<in> set (otp_verifications w).
               eligible (u_id u) ty (clock w) r \<longrightarrow> o_created_at r \<le> o_created_at m) \<and>
            o_otp_code m = otp \<and>
            otp_verifications (snd (verifyOtp otp ty w)) =
              map (mark_verified (o_id m) (clock w)) (otp_verifications w)"
    using l c t n by (intro exI [of _ m]) simp
next
  assume a: "script w = [] \<and> filter (eligible (u_id u) ty (clock w)) (otp_verifications w) = []"
  then show "fst (verifyOtp_try u otp ty w) = Inl (Error ''No valid OTP found'')"
    and "fst (verifyOtp otp ty w) = Inr False"
    and "otp_verifications (snd (verifyOtp otp ty w)) = otp_verifications w"
    using verify_none [OF assms, of ty otp] by simp_all
next
  fix m
  assume a: "script w = [] \<and>
         latest (filter (eligible (u_id u) ty (clock w)) (otp_verifications w)) = [m] \<and>
         o_otp_code m = otp"
  then have s: "script w = []"
    and l: "latest (filter (eligible (u_id u) ty (clock w)) (otp_verifications w)) = [m]"
    and c: "o_otp_code m = otp"
    by simp_all
  note v = verify_match [OF assms s l c]
  show "fst (verifyOtp otp ty w) = Inr True"
    by (simp add: v)
  show "otp_verifications (snd (verifyOtp otp ty w)) =
         map (mark_verified (o_id m) (clock w)) (otp_verifications w)"
    by (simp add: v)
  show "mark_verified (o_id m) (clock w) m = m\<lparr>o_is_verified := True, o_verified_at := Some (clock w)\<rparr>"
    by (simp add: mark_verified_def)
  fix t
  show "\<forall>r \<in> set (otp_verifications (snd (verifyOtp otp ty w))).
                eligible (u_id u) ty t r \<longrightarrow> o_id r \<noteq> o_id m"
    by (auto simp: v mark_verified_def eligible_def split: if_splits)
  assume "\<forall>r \<in> set (otp_verifications w).
                eligible (u_id u) ty t r \<and> o_id r \<noteq> o_id m \<longrightarrow> o_otp_code r \<noteq> otp"
  then show "fst (verifyOtp otp ty ((snd (verifyOtp otp ty w))\<lparr>clock := t\<rparr>)) = Inr False"
    by (rule verify_second [OF assms s l c])
qed


lemma one_code_world_fields:
  "user one_code_world = Some user0" "script one_code_world = []" "clock one_code_world = 2000"
  "next_id one_code_world = 2" "otp_verifications one_code_world = [code_row 1 1000]"
proof -
  have u: "user signed_in_world = Some user0" and s: "script signed_in_world = []"
    and f: "next_id signed_in_world = 1" "clock signed_in_world = 1000"
      "otp_verifications signed_in_world = []"
    by (simp_all add: signed_in_world_def world0_def)
  note h = sendOtp_honest [OF u s, of "''+919800000000''" "[]" Phone "1 / 2"]
  show "user one_code_world = Some user0" "script one_code_world = []" "clock one_code_world = 2000"
    "next_id one_code_world = 2" "otp_verifications one_code_world = [code_row 1 1000]"
    unfolding one_code_world_def h
    by (simp_all add: u s f generate_otp_half code_row_def user0_def)
qed

lemma two_codes_world_fields:
  "user two_codes_world = Some user0" "script two_codes_world = []" "clock two_codes_world = 3000"
  "otp_verifications two_codes_world = [code_row 1 1000, code_row 2 2000]"
proof -
  note h = sendOtp_honest [OF one_code_world_fields(1,2), of "''+919800000000''" "[]" Phone "1 / 2"]
  show "user two_codes_world = Some user0" "script two_codes_world = []" "clock two_codes_world = 3000"
    "otp_verifications two_codes_world = [code_row 1 1000, code_row 2 2000]"
    unfolding two_codes_world_def h
    by (simp_all add: one_code_world_fields generate_otp_half code_row_def user0_def)
qed

text \<open>
  The claim C1 as stated fails: after two codes issued from equal draws, the same code
  verifies twice, first against the later row and then against the earlier one.
\<close>

theorem same_code_verifies_twice:
  "fst (verifyOtp ''550000'' Phone two_codes_world) = Inr True \<and>
   fst (verifyOtp ''550000'' Phone
          ((snd (verifyOtp ''550000'' Phone two_codes_world))\<lparr>clock := 4000\<rparr>)) = Inr True"
proof -
  have l: "latest (filter (eligible (u_id user0) Phone (clock two_codes_world))
                     (otp_verifications two_codes_world)) = [code_row 2 2000]"
    by (simp add: two_codes_world_fields eligible_def code_row_def user0_def)
  have c: "o_otp_code (code_row 2 2000) = ''550000''"
    by (simp add: code_row_def)
  note v = verify_match [OF two_codes_world_fields(1,2) l c]
  let ?w = "(snd (verifyOtp ''550000'' Phone two_codes_world))\<lparr>clock := 4000\<rparr>"
  have u: "user ?w = Some user0" and s: "script ?w = []"
    by (simp_all add: v two_codes_world_fields)
  have l2: "latest (filter (eligible (u_id user0) Phone (clock ?w)) (otp_verifications ?w)) =
              [code_row 1 1000]"
    by (simp add: v two_codes_world_fields eligible_def code_row_def user0_def mark_verified_def)
  have c2: "o_otp_code (code_row 1 1000) = ''550000''"
    by (simp add: code_row_def)
  have first: "fst (verifyOtp ''550000'' Phone two_codes_world) = Inr True"
    by (simp add: v)
  have second: "fst (verifyOtp ''550000'' Phone ?w) = Inr True"
    by (simp only: verify_match [OF u s l2 c2] fst_conv)
  show ?thesis
    using first second by (rule conjI)
qed

theorem verifyOtp_latest_eligible_record_witness:
  "user signed_in_world = Some user0 \<and> script signed_in_world = [] \<and>
   filter (eligible (u_id user0) Phone (clock signed_in_world)) (otp_verifications signed_in_world) = [] \<and>
   fst (verifyOtp_try user0 ''550000'' Phone signed_in_world) = Inl (Error ''No valid OTP found'') \<and>
   fst (verifyOtp ''550000'' Phone signed_in_world) = Inr False \<and>
   user one_code_world = Some user0 \<and> script one_code_world = [] \<and>
   latest (filter (eligible (u_id user0) Phone (clock one_code_world))
             (otp_verifications one_code_world)) = [code_row 1 1000] \<and>
   o_otp_code (code_row 1 1000) = ''550000'' \<and>
   fst (verifyOtp ''550000'' Phone one_code_world) = Inr True \<and>
   otp_verifications (snd (verifyOtp ''550000'' Phone one_code_world)) =
     [(code_row 1 1000)\<lparr>o_is_verified := True, o_verified_at := Some 2000\<rparr>] \<and>
   fst (verifyOtp ''550000'' Phone
          ((snd (verifyOtp ''550000'' Phone one_code_world))\<lparr>clock := 5000\<rparr>)) = Inr False"
proof -
  have u0: "user signed_in_world = Some user0" and s0: "script signed_in_world = []"
    and f0: "filter (eligible (u_id user0) Phone (clock signed_in_world))
               (otp_verifications signed_in_world) = []"
    by (simp_all add: signed_in_world_def world0_def)
  note t0 = verifyOtp_latest_eligible_record [OF u0, of "''550000''" Phone,
              THEN conjunct2, THEN conjunct1, rule_format, OF conjI [OF s0 f0]]
  have a: "fst (verifyOtp_try user0 ''550000'' Phone signed_in_world) = Inl (Error ''No valid OTP found'')"
    and b: "fst (verifyOtp ''550000'' Phone signed_in_world) = Inr False"
    using t0 by blast+
  note u1 = one_code_world_fields(1) and s1 = one_code_world_fields(2)
  have l: "latest (filter (eligible (u_id user0) Phone (clock one_code_world))
             (otp_verifications one_code_world)) = [code_row 1 1000]"
    by (simp add: one_code_world_fields eligible_def code_row_def user0_def)
  have c: "o_otp_code (code_row 1 1000) = ''550000''"
    by (simp add: code_row_def)
  note t1 = verifyOtp_latest_eligible_record [OF u1, of "''550000''" Phone,
              THEN conjunct2, THEN conjunct2, rule_format, OF conjI [OF s1 conjI [OF l c]]]
  have d: "fst (verifyOtp ''550000'' Phone one_code_world) = Inr True"
    using t1 by (rule conjunct1)
  have e: "otp_verifications (snd (verifyOtp ''550000'' Phone one_code_world)) =
     [(code_row 1 1000)\<lparr>o_is_verified := True, o_verified_at := Some 2000\<rparr>]"
    using t1 by (simp add: one_code_world_fields mark_verified_def code_row_def)
  have n: "\<forall>r \<in> set (otp_verifications one_code_world).
             eligible (u_id user0) Phone 5000 r \<and> o_id r \<noteq> o_id (code_row 1 1000) \<longrightarrow>
             o_otp_code r \<noteq> ''550000''"
    by (simp add: one_code_world_fields)
  have g: "fst (verifyOtp ''550000'' Phone
          ((snd (verifyOtp ''550000'' Phone one_code_world))\<lparr>clock := 5000\<rparr>)) = Inr False"
    using t1 n by blast
  show ?thesis
    using u0 s0 f0 a b u1 s1 l c d e g by (simp only: simp_thms)
qed

end
